theory Spec2Isabelle
  imports Complex_Main "HOL-Library.Sublist"
begin

section \<open>The serialization codec: JSON texts\<close>

text \<open>
  The cache client encodes a value with \<open>JSON.stringify\<close> and decodes a stored text
  with \<open>JSON.parse\<close> (src/Example/redis-client.ts, lines 160 and 201).  Both are built
  into the language; this section models them.

  A value is \<open>null\<close>, a boolean, a number, a string, an array or an object.  A string is
  a \<open>string\<close>: the bytes of its UTF-8 form, which is what the store holds.  An object is
  the list of its own properties in the order the language enumerates them.
\<close>

subsection \<open>Numbers\<close>

text \<open>
  A number of the language is a double of IEEE 754.  \<open>Finite m e\<close> is the number
  \<open>m * 2 ^ e\<close>, with the mantissa and the exponent of the format: \<open>is_double\<close> says
  that \<open>m\<close> is below \<open>2 ^ 53\<close> in absolute value, that \<open>e\<close> lies between \<open>- 1074\<close> and
  \<open>971\<close>, and that \<open>m\<close> has all its 53 bits unless \<open>e\<close> is the least exponent.  The two
  zeros of the format, which \<open>==\<close> and \<open>===\<close> do not tell apart, are the one value
  \<open>Finite 0 (- 1074)\<close>.  The other numbers are the two infinities and \<open>NaN\<close>.
\<close>

datatype jsnum = Finite int int | PosInfinity | NegInfinity | NaN


text \<open>
  The double nearest to a positive fraction \<open>a / b\<close>, a tie going to the even mantissa.
  \<open>bit_length n\<close> is the number of binary digits of \<open>n\<close>, and \<open>binary_exponent a b\<close> the
  exponent \<open>k\<close> with \<open>2 ^ k \<le> a / b < 2 ^ (k + 1)\<close>.  The mantissa is the fraction
  divided by the power of two that leaves 53 bits, or by \<open>2 ^ (- 1074)\<close> when the
  fraction is too small for that, rounded to an integer.  A fraction beyond the largest
  double gives infinity.
\<close>

function bit_length :: "int \<Rightarrow> int" where
  "bit_length n = (if n \<le> 0 then 0 else 1 + bit_length (n div 2))"
  by pat_completeness auto

termination
  by (relation "measure nat") auto

declare bit_length.simps [simp del]

definition binary_exponent :: "int \<Rightarrow> int \<Rightarrow> int" where
  "binary_exponent a b =
     (let d = bit_length a - bit_length b
      in if (if 0 \<le> d then b * 2 ^ nat d \<le> a else b \<le> a * 2 ^ nat (- d)) then d else d - 1)"

definition round_half_even :: "int \<Rightarrow> int \<Rightarrow> int" where
  "round_half_even a b =
     (let q = a div b; r = a mod b
      in if 2 * r < b then q else if b < 2 * r then q + 1 else if even q then q else q + 1)"

definition nearest_double :: "int \<Rightarrow> int \<Rightarrow> jsnum" where
  "nearest_double a b =
     (let e = max (binary_exponent a b - 52) (- 1074);
          m = (if 0 \<le> e then round_half_even a (b * 2 ^ nat e)
               else round_half_even (a * 2 ^ nat (- e)) b)
      in if m = 2 ^ 53 then (if 971 < e + 1 then PosInfinity else Finite (2 ^ 52) (e + 1))
         else if 971 < e then PosInfinity
         else Finite m e)"

definition negate :: "jsnum \<Rightarrow> jsnum" where
  "negate x =
     (case x of
        Finite m e \<Rightarrow> Finite (- m) e
      | PosInfinity \<Rightarrow> NegInfinity
      | NegInfinity \<Rightarrow> PosInfinity
      | NaN \<Rightarrow> NaN)"

text \<open>
  The decimal digits of a natural number.
\<close>

definition digit_char :: "nat \<Rightarrow> char" where
  "digit_char d = char_of (48 + d)"

function show_digits :: "int \<Rightarrow> string" where
  "show_digits n =
     (if n < 10 then [digit_char (nat n)]
      else show_digits (n div 10) @ [digit_char (nat (n mod 10))])"
  by pat_completeness auto

termination
  by (relation "measure nat") auto

declare show_digits.simps [simp del]

text \<open>
  The number that a decimal numeral denotes: the double nearest to \<open>d * 10 ^ x\<close>, where
  \<open>d\<close> is the integer its digits spell and \<open>x\<close> its decimal exponent, negated when the
  numeral has a minus sign.  A numeral above \<open>10 ^ 1100\<close> lies beyond every double and
  denotes infinity; one below \<open>10 ^ (- 1100)\<close> denotes zero.  \<open>number i\<close> is the double
  nearest to the integer \<open>i\<close>.
\<close>

definition decimal_double :: "bool \<Rightarrow> int \<Rightarrow> int \<Rightarrow> jsnum" where
  "decimal_double neg d x =
     (if d = 0 then Finite 0 (- 1074)
      else (if neg then negate else (\<lambda>y. y))
             (if 1100 < x then PosInfinity
              else if x + int (length (show_digits d)) < - 1100 then Finite 0 (- 1074)
              else if 0 \<le> x then nearest_double (d * 10 ^ nat x) 1
              else nearest_double d (10 ^ nat (- x))))"

definition number :: "int \<Rightarrow> jsnum" where
  "number i = decimal_double (i < 0) \<bar>i\<bar> 0"

subsection \<open>Values\<close>

datatype jsval =
    JNull
  | JBool bool
  | JNum jsnum
  | JStr string
  | JArr "jsval list"
  | JObj "(string \<times> jsval) list"

subsection \<open>\<open>JSON.stringify\<close>\<close>

text \<open>
  A number is printed as \<open>Number::toString\<close> prints it, and a number that is not finite
  as \<open>null\<close>.  The digits are those of the shortest decimal that reads back as the
  number: the integer \<open>s\<close> and the exponent \<open>p\<close>, as large as can be, such that the
  numeral \<open>s * 10 ^ p\<close> denotes the number; when the two multiples of \<open>10 ^ p\<close> around the
  number both do, the nearer one is taken, and the even one when they are as near.  The
  search for \<open>p\<close> starts at the number of digits of the integer part and goes down.  It
  ends at \<open>- 1074\<close> at the latest, where every double is a whole multiple of \<open>10 ^ p\<close>.
  \<open>scaled m e p\<close> is the number \<open>m * 2 ^ e\<close> divided by \<open>10 ^ p\<close>, as a fraction.

  With \<open>k\<close> digits and \<open>n = p + k\<close>, the digits are followed by \<open>n - k\<close> zeros when
  \<open>k \<le> n \<le> 21\<close>; they have a decimal point after the first \<open>n\<close> of them when
  \<open>0 < n \<le> 21\<close>; they follow \<open>0.\<close> and \<open>- n\<close> zeros when \<open>- 6 < n \<le> 0\<close>; otherwise the
  number is printed with one digit before the point and the exponent \<open>n - 1\<close>.

  In a string the quote, the backslash and the control characters below \<open>0x20\<close> are
  escaped (\<open>\b \f \n \r \t\<close>, else \<open>\u00XX\<close> in lower case); every other character
  stands for itself.  Arrays and objects are printed without white space.
\<close>

abbreviation dquote :: char where "dquote \<equiv> CHR 0x22"
abbreviation bslash :: char where "bslash \<equiv> CHR 0x5C"

definition scaled :: "int \<Rightarrow> int \<Rightarrow> int \<Rightarrow> int \<times> int" where
  "scaled m e p =
     ((if 0 \<le> e then m * 2 ^ nat e else m) * (if p < 0 then 10 ^ nat (- p) else 1),
      (if 0 \<le> e then 1 else 2 ^ nat (- e)) * (if 0 \<le> p then 10 ^ nat p else 1))"

definition reads_as :: "int \<Rightarrow> int \<Rightarrow> int \<Rightarrow> int \<Rightarrow> bool" where
  "reads_as m e s p = (0 < s \<and> decimal_double False s p = Finite m e)"

definition digits_at :: "int \<Rightarrow> int \<Rightarrow> int \<Rightarrow> int option" where
  "digits_at m e p =
     (case scaled m e p of
        (a, b) \<Rightarrow>
          let lo = a div b;
              hi = (if a mod b = 0 then lo else lo + 1);
              nearer_lo = (2 * (a mod b) < b \<or> (2 * (a mod b) = b \<and> even lo))
          in if reads_as m e lo p \<and> (nearer_lo \<or> \<not> reads_as m e hi p) then Some lo
             else if reads_as m e hi p then Some hi
             else None)"

function shortest_digits :: "int \<Rightarrow> int \<Rightarrow> int \<Rightarrow> int \<times> int" where
  "shortest_digits m e p =
     (if p \<le> - 1074 then (case scaled m e p of (a, b) \<Rightarrow> (a div b, p))
      else case digits_at m e p of
             Some s \<Rightarrow> (s, p)
           | None \<Rightarrow> shortest_digits m e (p - 1))"
  by pat_completeness auto

termination
  by (relation "measure (\<lambda>(m, e, p). nat (p + 1074))") auto

declare shortest_digits.simps [simp del]

definition start_exponent :: "int \<Rightarrow> int \<Rightarrow> int" where
  "start_exponent m e =
     (case scaled m e 0 of (a, b) \<Rightarrow> int (length (show_digits (a div b))))"

definition show_decimal :: "int \<Rightarrow> int \<Rightarrow> string" where
  "show_decimal s p =
     (let ds = show_digits s; k = int (length ds); n = p + k
      in if k \<le> n \<and> n \<le> 21 then ds @ replicate (nat (n - k)) CHR ''0''
         else if 0 < n \<and> n \<le> 21 then take (nat n) ds @ ''.'' @ drop (nat n) ds
         else if - 6 < n \<and> n \<le> 0 then ''0.'' @ replicate (nat (- n)) CHR ''0'' @ ds
         else (if k = 1 then ds else take 1 ds @ ''.'' @ drop 1 ds)
              @ ''e'' @ (if 0 \<le> n - 1 then ''+'' else ''-'') @ show_digits \<bar>n - 1\<bar>)"

definition stringify_number :: "jsnum \<Rightarrow> string" where
  "stringify_number x =
     (case x of
        Finite m e \<Rightarrow>
          if m = 0 then ''0''
          else (if m < 0 then ''-'' else [])
               @ (case shortest_digits \<bar>m\<bar> e (start_exponent \<bar>m\<bar> e) of
                    (s, p) \<Rightarrow> show_decimal s p)
      | _ \<Rightarrow> ''null'')"

definition hex_char :: "nat \<Rightarrow> char" where
  "hex_char d = (if d < 10 then char_of (48 + d) else char_of (87 + d))"

definition escape_char :: "char \<Rightarrow> string" where
  "escape_char c =
     (if c = dquote then [bslash, dquote]
      else if c = bslash then [bslash, bslash]
      else if c = CHR 0x08 then [bslash, CHR ''b'']
      else if c = CHR 0x0C then [bslash, CHR ''f'']
      else if c = CHR 0x0A then [bslash, CHR ''n'']
      else if c = CHR 0x0D then [bslash, CHR ''r'']
      else if c = CHR 0x09 then [bslash, CHR ''t'']
      else if of_char c < (32::nat)
        then [bslash, CHR ''u'', CHR ''0'', CHR ''0'',
              hex_char (of_char c div 16), hex_char (of_char c mod 16)]
      else [c])"

definition quote :: "string \<Rightarrow> string" where
  "quote s = dquote # concat (map escape_char s) @ [dquote]"

fun JSON_stringify :: "jsval \<Rightarrow> string"
  and stringify_elems :: "jsval list \<Rightarrow> string"
  and stringify_members :: "(string \<times> jsval) list \<Rightarrow> string" where
  "JSON_stringify JNull = ''null''"
| "JSON_stringify (JBool b) = (if b then ''true'' else ''false'')"
| "JSON_stringify (JNum x) = stringify_number x"
| "JSON_stringify (JStr s) = quote s"
| "JSON_stringify (JArr vs) = ''['' @ stringify_elems vs @ '']''"
| "JSON_stringify (JObj kvs) = ''{'' @ stringify_members kvs @ ''}''"
| "stringify_elems [] = []"
| "stringify_elems [v] = JSON_stringify v"
| "stringify_elems (v # w # vs) = JSON_stringify v @ '','' @ stringify_elems (w # vs)"
| "stringify_members [] = []"
| "stringify_members [(k, v)] = quote k @ '':'' @ JSON_stringify v"
| "stringify_members ((k, v) # m # ms) =
     quote k @ '':'' @ JSON_stringify v @ '','' @ stringify_members (m # ms)"

subsection \<open>\<open>JSON.parse\<close>: tokens\<close>

text \<open>
  White space is space, tab, line feed and carriage return.  A number is an optional
  minus sign, an integer part without a leading zero, an optional fraction and an
  optional exponent; it denotes the integer that the digits of its integer part and of
  its fraction spell, times ten to the exponent less the number of digits of the
  fraction.  A string ends at the first unescaped quote; a control character in it is
  an error; \<open>\uXXXX\<close> denotes the code unit \<open>XXXX\<close>, given here in UTF-8, a high
  surrogate directly followed by an escaped low one being one code point.
\<close>

definition is_ws :: "char \<Rightarrow> bool" where
  "is_ws c = (c = CHR '' '' \<or> c = CHR 0x09 \<or> c = CHR 0x0A \<or> c = CHR 0x0D)"

definition skip_ws :: "string \<Rightarrow> string" where
  "skip_ws = dropWhile is_ws"

definition is_digit :: "char \<Rightarrow> bool" where
  "is_digit c = (48 \<le> (of_char c :: nat) \<and> (of_char c :: nat) \<le> 57)"

definition digit_val :: "char \<Rightarrow> int" where
  "digit_val c = int (of_char c) - 48"

definition read_digits :: "string \<Rightarrow> int" where
  "read_digits ds = foldl (\<lambda>a c. 10 * a + digit_val c) 0 ds"

definition scan_frac :: "string \<Rightarrow> (string \<times> string) option" where
  "scan_frac cs =
     (case cs of
        [] \<Rightarrow> Some ([], [])
      | c # r \<Rightarrow>
          if c = CHR ''.''
          then (if takeWhile is_digit r = [] then None
                else Some (takeWhile is_digit r, dropWhile is_digit r))
          else Some ([], cs))"

definition scan_sign :: "string \<Rightarrow> string \<times> string" where
  "scan_sign cs =
     (case cs of
        [] \<Rightarrow> ([], [])
      | c # r \<Rightarrow> if c = CHR ''+'' \<or> c = CHR ''-'' then ([c], r) else ([], cs))"

definition scan_exp :: "string \<Rightarrow> (int \<times> string) option" where
  "scan_exp cs =
     (case cs of
        [] \<Rightarrow> Some (0, [])
      | c # r \<Rightarrow>
          if c = CHR ''e'' \<or> c = CHR ''E''
          then (case scan_sign r of (sg, r') \<Rightarrow>
                  if takeWhile is_digit r' = [] then None
                  else Some ((if sg = ''-'' then - read_digits (takeWhile is_digit r')
                              else read_digits (takeWhile is_digit r')),
                             dropWhile is_digit r'))
          else Some (0, cs))"

definition scan_number :: "string \<Rightarrow> (string \<times> string \<times> int \<times> string) option" where
  "scan_number cs =
     (let ds = takeWhile is_digit cs
      in if ds = [] \<or> (1 < length ds \<and> hd ds = CHR ''0'') then None
         else case scan_frac (dropWhile is_digit cs) of
                None \<Rightarrow> None
              | Some (fr, r2) \<Rightarrow>
                  (case scan_exp r2 of
                     None \<Rightarrow> None
                   | Some (ex, r3) \<Rightarrow> Some (ds, fr, ex, r3)))"

definition parse_number :: "string \<Rightarrow> (jsval \<times> string) option" where
  "parse_number cs =
     (let neg = (cs \<noteq> [] \<and> hd cs = CHR ''-'')
      in case scan_number (if neg then tl cs else cs) of
           None \<Rightarrow> None
         | Some (ds, fr, ex, r) \<Rightarrow>
             Some (JNum (decimal_double neg (read_digits (ds @ fr)) (ex - int (length fr))), r))"

definition parse_literal :: "string \<Rightarrow> (jsval \<times> string) option" where
  "parse_literal cs =
     (if take 4 cs = ''null'' then Some (JNull, drop 4 cs)
      else if take 4 cs = ''true'' then Some (JBool True, drop 4 cs)
      else if take 5 cs = ''false'' then Some (JBool False, drop 5 cs)
      else None)"

definition hex_val :: "char \<Rightarrow> nat option" where
  "hex_val c =
     (let n = (of_char c :: nat)
      in if 48 \<le> n \<and> n \<le> 57 then Some (n - 48)
         else if 97 \<le> n \<and> n \<le> 102 then Some (n - 87)
         else if 65 \<le> n \<and> n \<le> 70 then Some (n - 55)
         else None)"

definition hex4 :: "char \<Rightarrow> char \<Rightarrow> char \<Rightarrow> char \<Rightarrow> nat option" where
  "hex4 a b c d =
     (case (hex_val a, hex_val b, hex_val c, hex_val d) of
        (Some w, Some x, Some y, Some z) \<Rightarrow> Some (4096 * w + 256 * x + 16 * y + z)
      | _ \<Rightarrow> None)"

definition utf8 :: "nat \<Rightarrow> string" where
  "utf8 n =
     (if n < 128 then [char_of n]
      else if n < 2048 then [char_of (192 + n div 64), char_of (128 + n mod 64)]
      else if n < 65536
        then [char_of (224 + n div 4096), char_of (128 + n div 64 mod 64), char_of (128 + n mod 64)]
      else [char_of (240 + n div 262144), char_of (128 + n div 4096 mod 64),
            char_of (128 + n div 64 mod 64), char_of (128 + n mod 64)])"

definition unescape :: "char \<Rightarrow> char option" where
  "unescape e =
     (if e = dquote then Some dquote
      else if e = bslash then Some bslash
      else if e = CHR ''/'' then Some CHR ''/''
      else if e = CHR ''b'' then Some (CHR 0x08)
      else if e = CHR ''f'' then Some (CHR 0x0C)
      else if e = CHR ''n'' then Some (CHR 0x0A)
      else if e = CHR ''r'' then Some (CHR 0x0D)
      else if e = CHR ''t'' then Some (CHR 0x09)
      else None)"

definition low_surrogate :: "string \<Rightarrow> nat option" where
  "low_surrogate cs =
     (if 6 \<le> length cs \<and> cs ! 0 = bslash \<and> cs ! 1 = CHR ''u''
      then (case hex4 (cs ! 2) (cs ! 3) (cs ! 4) (cs ! 5) of
              Some m \<Rightarrow> if 56320 \<le> m \<and> m < 57344 then Some m else None
            | None \<Rightarrow> None)
      else None)"

definition prepend :: "string \<Rightarrow> (string \<times> string) option \<Rightarrow> (string \<times> string) option" where
  "prepend s r = map_option (\<lambda>(t, rest). (s @ t, rest)) r"

definition unicode_escape :: "string \<Rightarrow> (string \<times> string) option" where
  "unicode_escape cs =
     (if length cs < 4 then None
      else case hex4 (cs ! 0) (cs ! 1) (cs ! 2) (cs ! 3) of
             None \<Rightarrow> None
           | Some n \<Rightarrow>
               if 55296 \<le> n \<and> n < 56320 then
                 (case low_surrogate (drop 4 cs) of
                    Some m \<Rightarrow> Some (utf8 (65536 + (n - 55296) * 1024 + (m - 56320)), drop 10 cs)
                  | None \<Rightarrow> Some (utf8 n, drop 4 cs))
               else Some (utf8 n, drop 4 cs))"

function parse_chars :: "string \<Rightarrow> (string \<times> string) option" where
  "parse_chars [] = None"
| "parse_chars (c # cs) =
     (if c = dquote then Some ([], cs)
      else if c = bslash then
        (case cs of
           [] \<Rightarrow> None
         | e # cs1 \<Rightarrow>
             if e = CHR ''u'' then
               (case unicode_escape cs1 of
                  None \<Rightarrow> None
                | Some (s, cs2) \<Rightarrow> prepend s (parse_chars cs2))
             else (case unescape e of
                     None \<Rightarrow> None
                   | Some ch \<Rightarrow> prepend [ch] (parse_chars cs1)))
      else if (of_char c :: nat) < 32 then None
      else prepend [c] (parse_chars cs))"
  by pat_completeness auto
termination
proof (relation "measure length")
  fix c :: char and cs x2 :: string and e :: char and cs1 s cs2 :: string and p :: "string \<times> string"
  assume "cs = e # cs1" and "unicode_escape cs1 = Some p" and "(s, cs2) = p"
  then have "length cs2 \<le> length cs1"
    by (auto simp: unicode_escape_def split: if_splits option.splits)
  with \<open>cs = e # cs1\<close> show "(cs2, c # cs) \<in> measure length" by simp
qed auto

subsection \<open>\<open>JSON.parse\<close>: objects\<close>

text \<open>
  The parser adds the members of an object one by one.  A key the object already has
  keeps its place and takes the new value.  A new key that is an array index (a
  canonical decimal numeral below \<open>2^32 - 1\<close>) is enumerated among the other index keys,
  in ascending order, before every other key; any other new key comes last.
\<close>

definition is_index :: "string \<Rightarrow> bool" where
  "is_index k =
     (k \<noteq> [] \<and> list_all is_digit k \<and> (length k = 1 \<or> hd k \<noteq> CHR ''0'')
      \<and> read_digits k < 4294967295)"

fun insert_index :: "string \<Rightarrow> 'a \<Rightarrow> (string \<times> 'a) list \<Rightarrow> (string \<times> 'a) list" where
  "insert_index k v [] = [(k, v)]"
| "insert_index k v ((k', v') # kvs) =
     (if is_index k' \<and> read_digits k' < read_digits k then (k', v') # insert_index k v kvs
      else (k, v) # (k', v') # kvs)"

definition obj_put :: "string \<Rightarrow> 'a \<Rightarrow> (string \<times> 'a) list \<Rightarrow> (string \<times> 'a) list" where
  "obj_put k v kvs =
     (if k \<in> set (map fst kvs) then map (\<lambda>(k', v'). if k' = k then (k', v) else (k', v')) kvs
      else if is_index k then insert_index k v kvs
      else kvs @ [(k, v)])"

subsection \<open>\<open>JSON.parse\<close>: values\<close>

text \<open>
  The parser of values, array elements and object members.  The first argument bounds
  the number of nested calls; \<open>JSON_parse\<close> passes the length of the text, which is
  enough, since a nested call is made only after a character has been consumed.
  \<open>None\<close> is the \<open>SyntaxError\<close> that \<open>JSON.parse\<close> throws.
\<close>

fun parse_value :: "nat \<Rightarrow> string \<Rightarrow> (jsval \<times> string) option"
  and parse_elems :: "nat \<Rightarrow> jsval list \<Rightarrow> string \<Rightarrow> (jsval \<times> string) option"
  and parse_members :: "nat \<Rightarrow> (string \<times> jsval) list \<Rightarrow> string \<Rightarrow> (jsval \<times> string) option"
  where
  "parse_value 0 cs = None"
| "parse_value (Suc f) cs =
     (case cs of
        [] \<Rightarrow> None
      | c # r \<Rightarrow>
          if c = CHR ''['' then
            (case skip_ws r of
               [] \<Rightarrow> None
             | d # r' \<Rightarrow> if d = CHR '']'' then Some (JArr [], r') else parse_elems f [] (d # r'))
          else if c = CHR ''{'' then
            (case skip_ws r of
               [] \<Rightarrow> None
             | d # r' \<Rightarrow> if d = CHR ''}'' then Some (JObj [], r') else parse_members f [] (d # r'))
          else if c = dquote then map_option (\<lambda>(s, r'). (JStr s, r')) (parse_chars r)
          else if c = CHR ''-'' \<or> is_digit c then parse_number cs
          else parse_literal cs)"
| "parse_elems 0 acc cs = None"
| "parse_elems (Suc f) acc cs =
     (case parse_value f cs of
        None \<Rightarrow> None
      | Some (v, r) \<Rightarrow>
          (case skip_ws r of
             [] \<Rightarrow> None
           | d # r' \<Rightarrow>
               if d = CHR '','' then parse_elems f (acc @ [v]) (skip_ws r')
               else if d = CHR '']'' then Some (JArr (acc @ [v]), r')
               else None))"
| "parse_members 0 acc cs = None"
| "parse_members (Suc f) acc cs =
     (case cs of
        [] \<Rightarrow> None
      | q # r \<Rightarrow>
          if q \<noteq> dquote then None
          else (case parse_chars r of
                  None \<Rightarrow> None
                | Some (k, r1) \<Rightarrow>
                    (case skip_ws r1 of
                       [] \<Rightarrow> None
                     | d # r2 \<Rightarrow>
                         if d \<noteq> CHR '':'' then None
                         else (case parse_value f (skip_ws r2) of
                                 None \<Rightarrow> None
                               | Some (v, r3) \<Rightarrow>
                                   (case skip_ws r3 of
                                      [] \<Rightarrow> None
                                    | e # r4 \<Rightarrow>
                                        if e = CHR '','' then parse_members f (obj_put k v acc) (skip_ws r4)
                                        else if e = CHR ''}'' then Some (JObj (obj_put k v acc), r4)
                                        else None)))))"

definition JSON_parse :: "string \<Rightarrow> jsval option" where
  "JSON_parse s =
     (case parse_value (length s) (skip_ws s) of
        None \<Rightarrow> None
      | Some (v, r) \<Rightarrow> if skip_ws r = [] then Some v else None)"

subsection \<open>Plain data\<close>



definition delimited :: "string \<Rightarrow> bool" where
  "delimited r = (case r of [] \<Rightarrow> True | c # _ \<Rightarrow> c = CHR '','' \<or> c = CHR '']'' \<or> c = CHR ''}'')"

section \<open>The key-value cache client (src/Example/redis-client.ts)\<close>

text \<open>
  Numbers of the source are modelled by integers, strings by \<open>string\<close>.  Logger calls
  change neither the client nor a result and are left out.  An \<open>Error\<close> object is a value
  of \<open>error\<close>; a rejected promise is a result \<open>Inl e\<close>.
\<close>

datatype error =
    NotConnected \<comment> \<open>the error thrown by every operation when \<open>isReady()\<close> is false\<close>
  | ConnectionFailure string \<comment> \<open>the error \<open>connect()\<close> throws, carrying the cause\<close>
  | RetriesExhausted \<comment> \<open>the error the reconnect strategy returns\<close>
  | TransportError string \<comment> \<open>a rejection of the underlying redis client\<close>
  | OperationFailed string \<comment> \<open>a rejection of a session handle request\<close>

record RedisConfig =
  host :: string
  port :: int
  password :: "string option"
  db :: "int option"
  retryStrategy :: "(int \<Rightarrow> int option) option"
  maxRetries :: "int option"
  connectTimeout :: "int option"

subsection \<open>The underlying redis client and the remote store\<close>

text \<open>
  The \<open>redis\<close> package and the server behind it are not part of the repository.  They are
  modelled as one value: whether the link is up, and the contents of the logical database,
  a map from keys to a text and the expiry in seconds it was stored with.  Every request
  on a link that is down is rejected.  The commands have the semantics of the store's
  protocol: \<open>SET\<close>, \<open>SETEX\<close> (which refuses an expiry that is not positive), \<open>GET\<close>,
  \<open>DEL\<close> (which walks the keys in order and counts the ones it removes) and \<open>EXISTS\<close>.
\<close>

record transport =
  online :: bool
  entries :: "string \<rightharpoonup> (string \<times> int option)"

definition link_down :: error where
  "link_down = TransportError ''connection closed''"

definition client_connect :: "transport \<Rightarrow> error + unit" where
  "client_connect t = (if online t then Inr () else Inl link_down)"

definition client_quit :: "transport \<Rightarrow> error + unit" where
  "client_quit t = (if online t then Inr () else Inl link_down)"

definition client_set :: "string \<Rightarrow> string \<Rightarrow> transport \<Rightarrow> error + transport" where
  "client_set k v t =
     (if online t then Inr (t\<lparr>entries := (entries t)(k \<mapsto> (v, None))\<rparr>) else Inl link_down)"

definition client_setEx :: "string \<Rightarrow> int \<Rightarrow> string \<Rightarrow> transport \<Rightarrow> error + transport" where
  "client_setEx k secs v t =
     (if \<not> online t then Inl link_down
      else if secs \<le> 0 then Inl (TransportError ''ERR invalid expire time'')
      else Inr (t\<lparr>entries := (entries t)(k \<mapsto> (v, Some secs))\<rparr>))"

definition client_get :: "string \<Rightarrow> transport \<Rightarrow> error + string option" where
  "client_get k t = (if online t then Inr (map_option fst (entries t k)) else Inl link_down)"



definition client_exists :: "string \<Rightarrow> transport \<Rightarrow> error + nat" where
  "client_exists k t =
     (if online t then Inr (case entries t k of None \<Rightarrow> 0 | Some _ \<Rightarrow> 1) else Inl link_down)"

subsection \<open>The class \<open>RedisClient\<close>\<close>

text \<open>
  The fields of the class.  \<open>client\<close> is \<open>None\<close> while the field is \<open>undefined\<close>.
  \<open>config\<close> holds the configuration after the defaults have been merged in.
\<close>

record RedisClient =
  config :: RedisConfig
  isConnected :: bool
  retryCount :: nat
  maxRetriesCap :: int
  client :: "transport option"

text \<open>
  \<open>a || b\<close> on an optional number: the left operand when it is truthy (present and not
  zero), the right one otherwise.
\<close>

definition or_default :: "int option \<Rightarrow> int \<Rightarrow> int" where
  "or_default a b = (case a of None \<Rightarrow> b | Some n \<Rightarrow> if n = 0 then b else n)"

text \<open>
  The constructor (lines 30 to 46): \<open>{ ...defaults, ...config }\<close> fills in \<open>db\<close> and
  \<open>connectTimeout\<close> where the caller gave none, and \<open>maxRetries\<close> is
  \<open>config.maxRetries || 3\<close>.  The private field \<open>maxRetries\<close> of the class is
  \<open>maxRetriesCap\<close> here, since the configuration has a field of the same name.
\<close>

definition createRedisClient :: "RedisConfig \<Rightarrow> RedisClient" where
  "createRedisClient cfg =
     \<lparr> config = cfg\<lparr> db := Some (case db cfg of None \<Rightarrow> 0 | Some d \<Rightarrow> d),
                        connectTimeout :=
                          Some (case connectTimeout cfg of None \<Rightarrow> 5000 | Some ms \<Rightarrow> ms) \<rparr>,
       isConnected = False,
       retryCount = 0,
       maxRetriesCap = or_default (maxRetries cfg) 3,
       client = None \<rparr>"

text \<open>
  The reconnect strategy handed to the redis package (lines 69 to 84): an error once
  \<open>retries\<close> exceeds the cap, the delay in milliseconds otherwise.
\<close>

definition reconnectStrategy :: "RedisClient \<Rightarrow> int \<Rightarrow> error + int" where
  "reconnectStrategy c retries =
     (if retries > maxRetriesCap c then Inl RetriesExhausted
      else Inr (min (retries * 50) 500))"

text \<open>
  The loop that calls the strategy is in the \<open>redis\<close> package.  When a connection attempt
  has failed, its socket calls the strategy with the number of retries made so far,
  which starts at 0.  A delay makes the socket wait and connect again, which is one more
  retry; an error ends the loop.  \<open>reconnections c n\<close> lists the delays of the retries
  that are made from the call numbered \<open>n\<close> on while every attempt fails.
\<close>

function reconnections :: "RedisClient \<Rightarrow> int \<Rightarrow> int list" where
  "reconnections c retries =
     (case reconnectStrategy c retries of
        Inl _ \<Rightarrow> []
      | Inr ms \<Rightarrow> ms # reconnections c (retries + 1))"
  by pat_completeness auto

termination
proof (relation "measure (\<lambda>(c, retries). nat (maxRetriesCap c + 1 - retries))")
  show "wf (measure (\<lambda>(c, retries). nat (maxRetriesCap c + 1 - retries)))"
    by simp
next
  fix c :: RedisClient and retries ms :: int
  assume "reconnectStrategy c retries = Inr ms"
  then have "retries \<le> maxRetriesCap c"
    by (simp add: reconnectStrategy_def split: if_splits)
  then show "((c, retries + 1), (c, retries))
             \<in> measure (\<lambda>(c, retries). nat (maxRetriesCap c + 1 - retries))"
    by simp
qed

declare reconnections.simps [simp del]

text \<open>The handlers \<open>connect()\<close> registers for the events of the underlying client.\<close>

definition on_error :: "RedisClient \<Rightarrow> RedisClient" where
  "on_error c = c\<lparr>isConnected := False\<rparr>"

definition on_connect :: "RedisClient \<Rightarrow> RedisClient" where
  "on_connect c = c\<lparr>isConnected := True, retryCount := 0\<rparr>"

definition on_reconnecting :: "RedisClient \<Rightarrow> RedisClient" where
  "on_reconnecting c = c"

text \<open>
  \<open>connect()\<close> (lines 51 to 119).  The argument is what the dynamic import and
  \<open>createClient\<close> yield: \<open>None\<close> when the package cannot be loaded, the link to the
  server otherwise.  A failure anywhere in the \<open>try\<close> block clears \<open>isConnected\<close> and is
  rethrown as a \<open>ConnectionFailure\<close>.
\<close>

definition connect :: "transport option \<Rightarrow> RedisClient \<Rightarrow> (error + unit) \<times> RedisClient" where
  "connect pkg c =
     (case pkg of
        None \<Rightarrow> (Inl (ConnectionFailure ''Cannot find package redis''), c\<lparr>isConnected := False\<rparr>)
      | Some t \<Rightarrow>
          (let c1 = c\<lparr>client := Some t\<rparr> in
           case client_connect t of
             Inl e \<Rightarrow>
               (Inl (ConnectionFailure (case e of TransportError m \<Rightarrow> m | _ \<Rightarrow> [])),
                c1\<lparr>isConnected := False\<rparr>)
           | Inr _ \<Rightarrow> (Inr (), (on_connect c1)\<lparr>isConnected := True\<rparr>)))"

definition disconnect :: "RedisClient \<Rightarrow> (error + unit) \<times> RedisClient" where
  "disconnect c =
     (case client c of
        None \<Rightarrow> (Inr (), c)
      | Some t \<Rightarrow>
          if isConnected c
          then (case client_quit t of
                  Inl e \<Rightarrow> (Inl e, c)
                | Inr _ \<Rightarrow> (Inr (), c\<lparr>isConnected := False\<rparr>))
          else (Inr (), c))"

definition isReady :: "RedisClient \<Rightarrow> bool" where
  "isReady c = (isConnected c \<and> client c \<noteq> None)"

text \<open>
  The codec.  \<open>set\<close> stores a string as it is and every other value as its JSON text
  (line 160); \<open>get\<close> returns what \<open>JSON.parse\<close> makes of the stored text, and the text
  itself when that throws (lines 200 to 208).
\<close>

definition encode :: "jsval \<Rightarrow> string" where
  "encode v = (case v of JStr s \<Rightarrow> s | _ \<Rightarrow> JSON_stringify v)"

definition decode :: "string \<Rightarrow> jsval" where
  "decode t = (case JSON_parse t of Some v \<Rightarrow> v | None \<Rightarrow> JStr t)"

text \<open>\<open>if (expiresIn)\<close>: an expiry that is absent or zero is falsy.\<close>

definition truthy_number :: "int option \<Rightarrow> bool" where
  "truthy_number n = (case n of None \<Rightarrow> False | Some i \<Rightarrow> i \<noteq> 0)"

text \<open>
  \<open>set(key, value, expiresIn?)\<close> (lines 154 to 179).  The guard comes first and throws
  before the underlying client is touched; a rejection of the underlying client is
  rethrown as it is.  Behind the guard \<open>client\<close> is never \<open>undefined\<close>, so the \<open>None\<close>
  case below is never taken.  The source's name \<open>set\<close> is the name of a constant of
  the logic, hence \<open>set_value\<close>.
\<close>

definition set_value ::
  "string \<Rightarrow> jsval \<Rightarrow> int option \<Rightarrow> RedisClient \<Rightarrow> (error + unit) \<times> RedisClient" where
  "set_value k v expiresIn c =
     (if \<not> isReady c then (Inl NotConnected, c)
      else case client c of
             None \<Rightarrow> (Inl NotConnected, c)
           | Some t \<Rightarrow>
               (let stringValue = encode v in
                case (if truthy_number expiresIn
                      then client_setEx k (case expiresIn of Some n \<Rightarrow> n | None \<Rightarrow> 0) stringValue t
                      else client_set k stringValue t) of
                  Inl e \<Rightarrow> (Inl e, c)
                | Inr t' \<Rightarrow> (Inr (), c\<lparr>client := Some t'\<rparr>)))"

text \<open>
  \<open>get(key)\<close> (lines 186 to 216): \<open>null\<close> for a key the store does not have, the decoded
  text otherwise.
\<close>

definition get :: "string \<Rightarrow> RedisClient \<Rightarrow> (error + jsval) \<times> RedisClient" where
  "get k c =
     (if \<not> isReady c then (Inl NotConnected, c)
      else case client c of
             None \<Rightarrow> (Inl NotConnected, c)
           | Some t \<Rightarrow>
               (case client_get k t of
                  Inl e \<Rightarrow> (Inl e, c)
                | Inr None \<Rightarrow> (Inr JNull, c)
                | Inr (Some txt) \<Rightarrow> (Inr (decode txt), c)))"




text \<open>\<open>exists(key)\<close> (lines 255 to 271).\<close>

definition exists :: "string \<Rightarrow> RedisClient \<Rightarrow> (error + bool) \<times> RedisClient" where
  "exists k c =
     (if \<not> isReady c then (Inl NotConnected, c)
      else case client c of
             None \<Rightarrow> (Inl NotConnected, c)
           | Some t \<Rightarrow>
               (case client_exists k t of
                  Inl e \<Rightarrow> (Inl e, c)
                | Inr n \<Rightarrow> (Inr (n = 1), c)))"

section \<open>The session lifecycle controller (src/unnamed/part_000)\<close>

text \<open>
  The controller talks to three collaborators that are not in the source files: the
  session handle \<open>sock\<close> of the protocol library, the credential store, and the console.
  What it does to them is recorded, in order, in a trace of effects.  A request to the
  session handle is a \<open>sock_call\<close>; the handle's answer (the resolved value, as a text, or
  the rejection) is given by the environment of the run.
\<close>

record message_key =
  remoteJid :: string
  fromMe :: bool
  key_id :: string

datatype sock_call =
    PresenceSubscribe string
  | SendPresenceUpdate string string
  | SendMessage string string
  | ReadMessages "message_key list"
  | RequestPairingCode "string option"
  | RequestPlaceholderResend message_key
  | FetchMessageHistory int message_key int
  | ProfilePictureUrl string
  | SaveCreds

datatype effect =
    Call sock_call
  | Delay nat
  | Console string
  | StartSock

text \<open>
  The session handle as the handler sees it: the answer to each request, the
  \<open>registered\<close> flag of its credentials, and the credentials \<open>saveCreds\<close> would write.
\<close>

record sock_env =
  respond :: "sock_call \<Rightarrow> error + string"
  registered :: bool
  creds :: string

text \<open>
  What the module reads from the command line, the configuration and the library:
  the two feature flags, the phone number (\<open>argvs[1]\<close>, which may be \<open>undefined\<close>),
  \<open>DisconnectReason.loggedOut\<close> and \<open>isJidNewsletter\<close>.
\<close>

record settings =
  doReplies :: bool
  usePairingCode :: bool
  phoneNumber :: "string option"
  loggedOut :: int
  isJidNewsletter :: "string \<Rightarrow> bool"

text \<open>
  The state of the module: the trace, the cache client \<open>redisClient\<close> (line 64), the
  persisted credentials, the number of session handles created so far, and the handles
  whose event stream is still open.
\<close>

record controller =
  trace :: "effect list"
  redisClient :: RedisClient
  persisted :: string
  handles :: nat
  live :: "nat list"

subsection \<open>Asynchronous code\<close>

text \<open>
  An \<open>async\<close> function is a function from the state to an outcome and the new state:
  \<open>Inr\<close> the value its promise resolves to, \<open>Inl\<close> the error it rejects with.  The
  effects made before a rejection stay made.  \<open>await m k\<close> is \<open>await m\<close> followed by \<open>k\<close>:
  a rejection of \<open>m\<close> is thrown on and \<open>k\<close> does not run.  \<open>for_each\<close> is a
  \<open>for ... of\<close> loop whose body awaits.
\<close>

type_synonym 'a action = "controller \<Rightarrow> (error + 'a) \<times> controller"

definition resolve :: "'a \<Rightarrow> 'a action" where
  "resolve a s = (Inr a, s)"

definition await :: "'a action \<Rightarrow> ('a \<Rightarrow> 'b action) \<Rightarrow> 'b action" where
  "await m k s = (case m s of (Inl e, s') \<Rightarrow> (Inl e, s') | (Inr a, s') \<Rightarrow> k a s')"

definition if_true :: "bool \<Rightarrow> unit action \<Rightarrow> unit action" where
  "if_true b m = (if b then m else resolve ())"

fun for_each :: "'a list \<Rightarrow> ('a \<Rightarrow> unit action) \<Rightarrow> unit action" where
  "for_each [] body = resolve ()"
| "for_each (x # xs) body = await (body x) (\<lambda>_. for_each xs body)"

definition in_order :: "unit action list \<Rightarrow> unit action" where
  "in_order ms = for_each ms (\<lambda>m. m)"

definition emit :: "effect \<Rightarrow> unit action" where
  "emit e s = (Inr (), s\<lparr>trace := trace s @ [e]\<rparr>)"

definition console_log :: "string \<Rightarrow> unit action" where
  "console_log line = emit (Console line)"

definition delay :: "nat \<Rightarrow> unit action" where
  "delay ms = emit (Delay ms)"

definition request :: "sock_env \<Rightarrow> sock_call \<Rightarrow> string action" where
  "request env c s = (respond env c, s\<lparr>trace := trace s @ [Call c]\<rparr>)"

definition redis_set :: "string \<Rightarrow> jsval \<Rightarrow> int option \<Rightarrow> unit action" where
  "redis_set k v expiresIn s =
     (case set_value k v expiresIn (redisClient s) of
        (r, c') \<Rightarrow> (r, s\<lparr>redisClient := c'\<rparr>))"

subsection \<open>\<open>startSock\<close> and the session handle\<close>

text \<open>
  Modelled from the spec: the protocol library (\<open>makeWASocket\<close>, \<open>useMultiFileAuthState\<close>)
  is code of the repository that is not among the source files.  By the spec a session
  handle lives for one connection attempt and a fresh one is created on every restart;
  loading the credentials does not change what is persisted.  So \<open>startSock\<close> (lines 67
  to 285) creates one more handle, numbered by the count so far, and opens its event
  stream.  The call at line 125 is not awaited.
\<close>

definition startSock :: "unit action" where
  "startSock s =
     (Inr (), s\<lparr> trace := trace s @ [StartSock],
                 handles := Suc (handles s),
                 live := live s @ [handles s] \<rparr>)"

subsection \<open>The events\<close>

datatype connection_state = ConnOpen | ConnConnecting | ConnClose

text \<open>
  A \<open>connection.update\<close>: \<open>connection\<close> is \<open>None\<close> when the field is \<open>undefined\<close>;
  \<open>statusCode\<close> is \<open>lastDisconnect?.error?.output?.statusCode\<close>, \<open>None\<close> when any link
  of that chain is missing.
\<close>

record connection_update =
  connection :: "connection_state option"
  statusCode :: "int option"
  qr :: "string option"

record wa_message =
  msg_key :: message_key
  conversation :: "string option"
  extendedText :: "string option"
  messageTimestamp :: int

datatype upsert_type = Notify | Append

record upsert =
  upsert_type :: upsert_type
  messages :: "wa_message list"
  requestId :: "string option"

record history_set =
  chats :: nat
  contacts :: nat
  history_messages :: nat
  on_demand :: bool

record message_update =
  update_key :: message_key
  pollUpdates :: bool

text \<open>\<open>imgUrl\<close> of a contact update: \<open>undefined\<close>, \<open>null\<close> or a text.\<close>

datatype img_url = ImgUndefined | ImgNull | ImgUrl string

record contact =
  contact_id :: string
  imgUrl :: img_url

text \<open>
  The map from event names to event data that the handler is called with.  A kind that
  is absent from the batch is \<open>None\<close> (\<open>False\<close> for \<open>creds.update\<close>, whose data the
  handler does not read).  The data of a kind that is only printed is its printed form.
\<close>

record events =
  ev_connection_update :: "connection_update option"
  ev_creds_update :: bool
  ev_labels_association :: "string option"
  ev_labels_edit :: "string option"
  ev_call :: "string option"
  ev_messaging_history_set :: "history_set option"
  ev_messages_upsert :: "upsert option"
  ev_messages_update :: "message_update list option"
  ev_message_receipt_update :: "string option"
  ev_messages_reaction :: "string option"
  ev_presence_update :: "string option"
  ev_chats_update :: "string option"
  ev_contacts_update :: "contact list option"
  ev_chats_delete :: "string option"

subsection \<open>The handlers\<close>

text \<open>\<open>sendMessageWTyping\<close> (lines 100 to 110).\<close>

definition sendMessageWTyping :: "sock_env \<Rightarrow> string \<Rightarrow> string \<Rightarrow> unit action" where
  "sendMessageWTyping env msg jid =
     await (request env (PresenceSubscribe jid)) (\<lambda>_.
     await (delay 500) (\<lambda>_.
     await (request env (SendPresenceUpdate ''composing'' jid)) (\<lambda>_.
     await (delay 2000) (\<lambda>_.
     await (request env (SendPresenceUpdate ''paused'' jid)) (\<lambda>_.
     await (request env (SendMessage jid msg)) (\<lambda>_.
     resolve ()))))))"

text \<open>
  The pairing code and QR branch (lines 133 to 147).  The key is the template
  \<open>pairing_code:${phoneNumber}\<close>, in which an undefined phone number prints as
  \<open>undefined\<close>; the expiry is \<open>60 * 5\<close> seconds.
\<close>

definition template :: "string option \<Rightarrow> string" where
  "template x = (case x of None \<Rightarrow> ''undefined'' | Some s \<Rightarrow> s)"

definition pairing_key :: "string option \<Rightarrow> string" where
  "pairing_key phone = ''pairing_code:'' @ template phone"

definition truthy_string :: "string option \<Rightarrow> bool" where
  "truthy_string x = (case x of None \<Rightarrow> False | Some s \<Rightarrow> s \<noteq> [])"

definition pairing :: "settings \<Rightarrow> sock_env \<Rightarrow> connection_update \<Rightarrow> unit action" where
  "pairing cfg env u =
     in_order
       [ if_true (usePairingCode cfg)
           (await (request env (RequestPairingCode (phoneNumber cfg))) (\<lambda>code.
            await (redis_set (pairing_key (phoneNumber cfg)) (JStr code) (Some (60 * 5))) (\<lambda>_.
            console_log (''Pairing code: '' @ code)))),
         if_true (truthy_string (qr u)) (console_log (''QR code: '' @ template (qr u))) ]"

text \<open>The handler of \<open>connection.update\<close> (lines 119 to 153).\<close>

definition on_connection_update :: "settings \<Rightarrow> sock_env \<Rightarrow> connection_update \<Rightarrow> unit action" where
  "on_connection_update cfg env u =
     in_order
       [ if_true (connection u = Some ConnClose)
           (if statusCode u \<noteq> Some (loggedOut cfg) then startSock
            else console_log ''Connection closed. You are logged out.''),
         console_log ''connection update'',
         if_true (connection u = None \<and> \<not> registered env) (pairing cfg env u),
         if_true (connection u = Some ConnOpen) (console_log ''opened connection'') ]"

text \<open>The handler of \<open>creds.update\<close> (lines 156 to 158): \<open>await saveCreds()\<close>.\<close>

definition saveCreds :: "sock_env \<Rightarrow> unit action" where
  "saveCreds env =
     await (request env SaveCreds) (\<lambda>_ s. (Inr (), s\<lparr>persisted := creds env\<rparr>))"

text \<open>A kind of event that is only printed.\<close>

definition print_event :: "string \<Rightarrow> string option \<Rightarrow> unit action" where
  "print_event label x = (case x of None \<Rightarrow> resolve () | Some d \<Rightarrow> console_log (label @ d))"

text \<open>The handler of \<open>messaging-history.set\<close> (lines 174 to 180).\<close>

definition on_history_set :: "history_set \<Rightarrow> unit action" where
  "on_history_set h =
     in_order
       [ if_true (on_demand h) (console_log ''received on-demand history sync''),
         console_log ''recv chats, contacts, msgs'' ]"

text \<open>
  The body of the loop over the messages of a \<open>notify\<close> batch (lines 195 to 214).
  \<open>text_of\<close> is \<open>msg.message?.conversation || msg.message?.extendedTextMessage?.text\<close>,
  \<open>None\<close> when it is falsy.
\<close>

definition text_of :: "wa_message \<Rightarrow> string option" where
  "text_of m =
     (if truthy_string (conversation m) then conversation m
      else if truthy_string (extendedText m) then extendedText m
      else None)"

definition on_message :: "settings \<Rightarrow> sock_env \<Rightarrow> upsert \<Rightarrow> wa_message \<Rightarrow> unit action" where
  "on_message cfg env up m =
     (case text_of m of
        None \<Rightarrow> resolve ()
      | Some txt \<Rightarrow>
          in_order
            [ if_true (txt = ''requestPlaceholder'' \<and> \<not> truthy_string (requestId up))
                (await (request env (RequestPlaceholderResend (msg_key m))) (\<lambda>messageId.
                 console_log (''requested placeholder resync, id='' @ messageId))),
              if_true (txt = ''onDemandHistSync'')
                (await (request env (FetchMessageHistory 50 (msg_key m) (messageTimestamp m)))
                   (\<lambda>messageId.
                 console_log (''requested on-demand sync, id='' @ messageId))),
              if_true (\<not> fromMe (msg_key m) \<and> doReplies cfg
                    \<and> \<not> isJidNewsletter cfg (remoteJid (msg_key m)))
                (await (console_log (''replying to '' @ remoteJid (msg_key m))) (\<lambda>_.
                 await (request env (ReadMessages [msg_key m])) (\<lambda>_.
                 sendMessageWTyping env ''Hello there!'' (remoteJid (msg_key m))))) ])"

text \<open>The handler of \<open>messages.upsert\<close> (lines 183 to 217).\<close>

definition on_messages_upsert :: "settings \<Rightarrow> sock_env \<Rightarrow> upsert \<Rightarrow> unit action" where
  "on_messages_upsert cfg env up =
     in_order
       [ console_log ''recv messages'',
         if_true (truthy_string (requestId up))
           (console_log (''placeholder message received for request of id='' @ template (requestId up))),
         if_true (upsert_type up = Notify) (for_each (messages up) (on_message cfg env up)) ]"

text \<open>The handler of \<open>messages.update\<close> (lines 220 to 239).\<close>

definition on_messages_update :: "message_update list \<Rightarrow> unit action" where
  "on_messages_update us =
     in_order
       [ console_log ''messages.update'',
         for_each us (\<lambda>u. if_true (pollUpdates u) (console_log ''got poll update, aggregation: '')) ]"

text \<open>
  The handler of \<open>contacts.update\<close> (lines 257 to 268).  The request for the picture
  carries \<open>.catch(() => null)\<close>: its rejection becomes the value \<open>null\<close>.
\<close>

definition catch_null :: "string action \<Rightarrow> string option action" where
  "catch_null m s = (case m s of (Inl e, s') \<Rightarrow> (Inr None, s') | (Inr a, s') \<Rightarrow> (Inr (Some a), s'))"

definition on_contact :: "sock_env \<Rightarrow> contact \<Rightarrow> unit action" where
  "on_contact env c =
     (case imgUrl c of
        ImgUndefined \<Rightarrow> resolve ()
      | ImgNull \<Rightarrow>
          console_log (''contact '' @ contact_id c @ '' has a new profile pic: null'')
      | ImgUrl _ \<Rightarrow>
          await (catch_null (request env (ProfilePictureUrl (contact_id c)))) (\<lambda>newUrl.
          console_log (''contact '' @ contact_id c @ '' has a new profile pic: ''
                       @ (case newUrl of None \<Rightarrow> ''null'' | Some url \<Rightarrow> url))))"

text \<open>
  The function passed to \<open>sock.ev.process\<close> (lines 116 to 273): one \<open>if\<close> per kind of
  event, in this order, each awaited before the next.  \<open>handlers\<close> lists them.
\<close>

definition if_present :: "'a option \<Rightarrow> ('a \<Rightarrow> unit action) \<Rightarrow> unit action" where
  "if_present x h = (case x of None \<Rightarrow> resolve () | Some d \<Rightarrow> h d)"

definition handlers :: "settings \<Rightarrow> sock_env \<Rightarrow> events \<Rightarrow> unit action list" where
  "handlers cfg env ev =
     [ if_present (ev_connection_update ev) (on_connection_update cfg env),
       if_true (ev_creds_update ev) (saveCreds env),
       print_event ''labels.association '' (ev_labels_association ev),
       print_event ''labels.edit '' (ev_labels_edit ev),
       print_event ''recv call event '' (ev_call ev),
       if_present (ev_messaging_history_set ev) on_history_set,
       if_present (ev_messages_upsert ev) (on_messages_upsert cfg env),
       if_present (ev_messages_update ev) on_messages_update,
       print_event ''message-receipt.update '' (ev_message_receipt_update ev),
       print_event ''messages.reaction '' (ev_messages_reaction ev),
       print_event ''presence.update '' (ev_presence_update ev),
       print_event ''chats.update '' (ev_chats_update ev),
       if_present (ev_contacts_update ev) (\<lambda>cs. for_each cs (on_contact env)),
       print_event ''chats deleted '' (ev_chats_delete ev) ]"

definition process :: "settings \<Rightarrow> sock_env \<Rightarrow> events \<Rightarrow> unit action" where
  "process cfg env ev = in_order (handlers cfg env ev)"

subsection \<open>The module as a whole\<close>

text \<open>
  Line 64 creates the cache client and line 287 starts the first session; nothing in the
  module calls \<open>connect()\<close> on the cache client.
\<close>

definition main :: "RedisConfig \<Rightarrow> string \<Rightarrow> controller" where
  "main redisConfig stored =
     snd (startSock \<lparr> trace = [], redisClient = createRedisClient redisConfig,
                      persisted = stored, handles = 0, live = [] \<rparr>)"

text \<open>
  Modelled from the spec: the event stream of a session handle is code of the protocol
  library.  A handle delivers batches of events to the handler while it is live; the
  spec gives it the lifetime of one connection attempt, so a batch that reports the
  connection closed is its last.  A rejection of the handler is not handled by anyone;
  the effects made before it stay.
\<close>

definition closes :: "events \<Rightarrow> bool" where
  "closes ev =
     (case ev_connection_update ev of None \<Rightarrow> False | Some u \<Rightarrow> connection u = Some ConnClose)"

definition deliver :: "settings \<Rightarrow> nat \<times> sock_env \<times> events \<Rightarrow> controller \<Rightarrow> controller" where
  "deliver cfg d s =
     (case d of (h, env, ev) \<Rightarrow>
        if h \<in> set (live s)
        then (let s' = snd (process cfg env ev s)
              in if closes ev then s'\<lparr>live := removeAll h (live s')\<rparr> else s')
        else s)"

definition run :: "settings \<Rightarrow> (nat \<times> sock_env \<times> events) list \<Rightarrow> controller \<Rightarrow> controller" where
  "run cfg ds s = fold (deliver cfg) ds s"

section \<open>Notions used in the statements\<close>

text \<open>
  \<open>added s s'\<close> is what a step from \<open>s\<close> to \<open>s'\<close> appends to the trace.  The effects of an
  automatic reply are the requests \<open>readMessages\<close>, \<open>presenceSubscribe\<close>,
  \<open>sendPresenceUpdate\<close> and \<open>sendMessage\<close> and the delays; \<open>choreography\<close> is the
  sequence of them that the reply to a message is to make.
\<close>

definition added :: "controller \<Rightarrow> controller \<Rightarrow> effect list" where
  "added s s' = drop (length (trace s)) (trace s')"

definition reply_effect :: "effect \<Rightarrow> bool" where
  "reply_effect e =
     (case e of
        Delay _ \<Rightarrow> True
      | Call (ReadMessages _) \<Rightarrow> True
      | Call (PresenceSubscribe _) \<Rightarrow> True
      | Call (SendPresenceUpdate _ _) \<Rightarrow> True
      | Call (SendMessage _ _) \<Rightarrow> True
      | _ \<Rightarrow> False)"

definition choreography :: "message_key \<Rightarrow> effect list" where
  "choreography k =
     [ Call (ReadMessages [k]),
       Call (PresenceSubscribe (remoteJid k)),
       Delay 500,
       Call (SendPresenceUpdate ''composing'' (remoteJid k)),
       Delay 2000,
       Call (SendPresenceUpdate ''paused'' (remoteJid k)),
       Call (SendMessage (remoteJid k) ''Hello there!'') ]"

text \<open>
  \<open>traces m P\<close>: whatever the state, \<open>m\<close> only appends to the trace, and what it appends
  satisfies \<open>P\<close>.  An appended list is \<open>quiet\<close> when none of its effects belongs to a
  reply.
\<close>

definition traces :: "'a action \<Rightarrow> (effect list \<Rightarrow> bool) \<Rightarrow> bool" where
  "traces m P = (\<forall>s. \<exists>es. trace (snd (m s)) = trace s @ es \<and> P es)"

definition quiet :: "effect list \<Rightarrow> bool" where
  "quiet es = (filter reply_effect es = [])"

text \<open>
  Frame conditions: an action creates no session handle and closes none; an action
  leaves a cache client that is not ready as it is.  A batch \<open>restarts\<close> when it reports
  the connection closed with a status code other than the logged-out one.
\<close>

definition keeps_handles :: "'a action \<Rightarrow> bool" where
  "keeps_handles m = (\<forall>s. handles (snd (m s)) = handles s \<and> live (snd (m s)) = live s)"

definition keeps_unready :: "'a action \<Rightarrow> bool" where
  "keeps_unready m =
     (\<forall>s. \<not> isReady (redisClient s) \<longrightarrow> redisClient (snd (m s)) = redisClient s)"

definition restarts :: "settings \<Rightarrow> events \<Rightarrow> bool" where
  "restarts cfg ev =
     (case ev_connection_update ev of
        None \<Rightarrow> False
      | Some u \<Rightarrow> connection u = Some ConnClose \<and> statusCode u \<noteq> Some (loggedOut cfg))"

text \<open>
  \<open>picture_request\<close> tells the requests for a profile picture, the only requests of the
  handler that carry a \<open>catch\<close>.  An action leaves rejections \<open>uncontained\<close> when it only
  appends to the trace and, whenever a request among what it appends is rejected by the
  session handle and is not a request for a picture, the action rejects with the error
  of that request, which is the last effect it makes.
\<close>

definition picture_request :: "sock_call \<Rightarrow> bool" where
  "picture_request c = (case c of ProfilePictureUrl _ \<Rightarrow> True | _ \<Rightarrow> False)"

definition uncontained :: "sock_env \<Rightarrow> 'a action \<Rightarrow> bool" where
  "uncontained env m =
     (\<forall>s. \<exists>es. trace (snd (m s)) = trace s @ es
        \<and> (\<forall>c e. Call c \<in> set es \<and> respond env c = Inl e \<and> \<not> picture_request c \<longrightarrow>
              fst (m s) = Inl e \<and> es \<noteq> [] \<and> last es = Call c))"

section \<open>Example values\<close>

text \<open>
  Concrete inputs at which the theorems below are instantiated: the configuration of
  src/Example/redis-client-example.ts, a reachable empty store, a client connected
  to it, the same client after one \<open>set\<close>, and a structured value.
\<close>

definition example_config :: RedisConfig where
  "example_config =
     \<lparr> host = ''localhost'', port = 6379, password = None, db = Some 0,
       retryStrategy = None, maxRetries = Some 3, connectTimeout = Some 5000 \<rparr>"

definition empty_store :: transport where
  "empty_store = \<lparr> online = True, entries = Map.empty \<rparr>"

definition ready_client :: RedisClient where
  "ready_client = snd (connect (Some empty_store) (createRedisClient example_config))"



text \<open>
  For the controller: settings with both features on and the phone number 555; a
  session handle that resolves every request with a given text, one that rejects the
  placeholder request only, and one that rejects everything; connection updates; an
  inbound text message; batches of events; and the state the module would be in
  had its cache client been connected.
\<close>

definition example_settings :: settings where
  "example_settings =
     \<lparr> doReplies = True, usePairingCode = True, phoneNumber = Some ''555'',
       loggedOut = 401, isJidNewsletter = (\<lambda>jid. False) \<rparr>"

definition accepting :: "string \<Rightarrow> sock_env" where
  "accepting code = \<lparr> respond = (\<lambda>c. Inr code), registered = False, creds = ''creds'' \<rparr>"




definition closed_with :: "int option \<Rightarrow> connection_update" where
  "closed_with code = \<lparr> connection = Some ConnClose, statusCode = code, qr = None \<rparr>"

definition awaiting_pairing :: connection_update where
  "awaiting_pairing = \<lparr> connection = None, statusCode = None, qr = None \<rparr>"

definition no_events :: events where
  "no_events =
     \<lparr> ev_connection_update = None, ev_creds_update = False, ev_labels_association = None,
       ev_labels_edit = None, ev_call = None, ev_messaging_history_set = None,
       ev_messages_upsert = None, ev_messages_update = None,
       ev_message_receipt_update = None, ev_messages_reaction = None,
       ev_presence_update = None, ev_chats_update = None, ev_contacts_update = None,
       ev_chats_delete = None \<rparr>"

definition inbound_text :: "string \<Rightarrow> wa_message" where
  "inbound_text txt =
     \<lparr> msg_key = \<lparr> remoteJid = ''111@s.whatsapp.net'', fromMe = False, key_id = ''A1'' \<rparr>,
       conversation = Some txt, extendedText = None, messageTimestamp = 1700000000 \<rparr>"

definition notify_batch :: "wa_message list \<Rightarrow> upsert" where
  "notify_batch ms = \<lparr> upsert_type = Notify, messages = ms, requestId = None \<rparr>"


definition ready_module :: controller where
  "ready_module = (main example_config ''creds'')\<lparr>redisClient := ready_client\<rparr>"

section \<open>The codec: parsing a printed value\<close>

subsection \<open>Rounding to a double\<close>




lemma powi2_strict: "j < k \<Longrightarrow> (2::real) powi j < 2 powi k"
  by (rule power_int_strict_increasing) simp_all







subsection \<open>The digits of a number\<close>




subsection \<open>Reading a printed number\<close>

lemma code_digit_char: "d < 10 \<Longrightarrow> (of_char (digit_char d) :: nat) = 48 + d"
  by (simp add: digit_char_def)



lemma digit_char_eq_zero: "d < 10 \<Longrightarrow> digit_char d = CHR ''0'' \<longleftrightarrow> d = 0"
proof -
  assume d: "d < 10"
  have "(digit_char d = CHR ''0'') = ((of_char (digit_char d) :: nat) = of_char CHR ''0'')"
    by (simp only: of_char_eq_iff)
  with d show ?thesis by (simp add: code_digit_char)
qed






lemma show_digits_zero: "show_digits 0 = ''0''"
  by (subst show_digits.simps) (simp add: digit_char_eq_zero)













lemma not_digit_simps [simp]:
  "\<not> is_digit CHR ''.''" "\<not> is_digit CHR ''e''" "is_digit CHR ''0''"
  by (simp_all add: is_digit_def)










subsection \<open>Strings\<close>





subsection \<open>Objects\<close>





lemma skip_ws_non_ws: "\<not> is_ws c \<Longrightarrow> skip_ws (c # r) = c # r"
  by (simp add: skip_ws_def)

subsection \<open>Values\<close>


lemma delimited_simps [simp]:
  "delimited []" "delimited (CHR '','' # r)" "delimited (CHR '']'' # r)" "delimited (CHR ''}'' # r)"
  by (simp_all add: delimited_def)

lemma skip_ws_simps [simp]:
  "skip_ws [] = []" "skip_ws (CHR '','' # r) = CHR '','' # r" "skip_ws (CHR '']'' # r) = CHR '']'' # r"
  "skip_ws (CHR ''}'' # r) = CHR ''}'' # r" "skip_ws (CHR '':'' # r) = CHR '':'' # r"
  "skip_ws (dquote # r) = dquote # r"
  by (simp_all add: skip_ws_def is_ws_def)


lemma parse_value_atom:
  "parse_value (Suc f) (''null'' @ r) = Some (JNull, r)"
  "parse_value (Suc f) (''true'' @ r) = Some (JBool True, r)"
  "parse_value (Suc f) (''false'' @ r) = Some (JBool False, r)"
  by (simp_all add: parse_literal_def is_digit_def)









subsection \<open>A parsed string is shorter than its text\<close>














section \<open>The cache client: properties\<close>


lemma JSON_parse_null: "JSON_parse ''null'' = Some JNull"
  by (simp add: JSON_parse_def parse_literal_def is_digit_def skip_ws_def is_ws_def)


lemma ready_client_ready:
  "isReady ready_client \<and> client ready_client = Some empty_store \<and> online empty_store"
  by (simp add: ready_client_def connect_def client_connect_def empty_store_def isReady_def
      on_connect_def createRedisClient_def)





lemma not_ready_states:
  "\<not> isReady (createRedisClient cfg)"
  "\<not> isReady (on_error c)"
  "fst (connect pkg c) \<noteq> Inr () \<Longrightarrow> \<not> isReady (snd (connect pkg c))"
  by (auto simp: isReady_def createRedisClient_def on_error_def connect_def Let_def
      split: option.splits sum.splits)

lemma get_after_set:
  assumes "isReady c" and "client c = Some t" and "online t"
  shows "fst (get k (snd (set_value k v None c))) = Inr (decode (encode v))"
  using assms
  by (simp add: set_value_def get_def client_set_def client_get_def truthy_number_def isReady_def)


subsection \<open>The round trip through the codec and the store\<close>




subsection \<open>The guard of every operation\<close>

text \<open>
  Claim C3.  Whenever \<open>isReady()\<close> is false, \<open>set\<close> and \<open>get\<close> fail with \<open>NotConnected\<close>
  for every key, value and expiry, and leave the client as it was: the underlying
  client is not asked, so no error of the transport can come back.
\<close>

theorem not_ready_fails_with_NotConnected:
  assumes "\<not> isReady c"
  shows "set_value k v expiresIn c = (Inl NotConnected, c) \<and> get k c = (Inl NotConnected, c)"
  using assms by (simp add: set_value_def get_def)

theorem not_ready_fails_with_NotConnected_witness:
  "\<not> isReady (on_error ready_client)
   \<and> set_value ''x'' (JNum (number 1)) None (on_error ready_client) = (Inl NotConnected, on_error ready_client)
   \<and> get ''x'' (on_error ready_client) = (Inl NotConnected, on_error ready_client)
   \<and> get ''x'' (createRedisClient example_config) = (Inl NotConnected, createRedisClient example_config)"
  using not_ready_fails_with_NotConnected [OF not_ready_states(2), of "''x''" "JNum (number 1)" None ready_client]
    not_ready_fails_with_NotConnected [OF not_ready_states(1), of "''x''" "JNum (number 1)" None example_config]
    not_ready_states(2) [of ready_client]
  by simp

subsection \<open>The reconnect strategy\<close>

lemma reconnectStrategy_grants:
  "retries \<le> maxRetriesCap c \<Longrightarrow> reconnectStrategy c retries = Inr (min (retries * 50) 500)"
  by (simp add: reconnectStrategy_def)

lemma reconnectStrategy_refuses:
  "maxRetriesCap c < retries \<Longrightarrow> reconnectStrategy c retries = Inl RetriesExhausted"
  by (simp add: reconnectStrategy_def)

text \<open>
  The retries made from the call numbered \<open>n\<close> on are those numbered \<open>n\<close> up to the cap,
  the cap included.  Counted from the first call, numbered 0, that is one more than the
  cap.
\<close>

lemma reconnections_from:
  "reconnections c n = map (\<lambda>i. min (i * 50) 500) [n .. maxRetriesCap c]"
proof (induction "nat (maxRetriesCap c + 1 - n)" arbitrary: n)
  case 0
  then have "maxRetriesCap c < n" by simp
  then show ?case
    by (simp add: reconnections.simps [of c n] reconnectStrategy_refuses)
next
  case (Suc k)
  then have le: "n \<le> maxRetriesCap c" and k: "k = nat (maxRetriesCap c + 1 - (n + 1))"
    by simp_all
  have "[n .. maxRetriesCap c] = n # [n + 1 .. maxRetriesCap c]"
    using le by (simp add: upto_rec1)
  with Suc.hyps(1) [OF k] le show ?case
    by (simp add: reconnections.simps [of c n] reconnectStrategy_grants)
qed

lemma reconnections_count: "length (reconnections c 0) = nat (maxRetriesCap c + 1)"
  by (simp add: reconnections_from)

text \<open>
  Claim C4.  For every number from 1 to the cap the strategy returns the delay
  \<open>min (n * 50) 500\<close> and above the cap the terminal error, as the claim says
  (\<open>reconnectStrategy_grants\<close>, \<open>reconnectStrategy_refuses\<close>).  But the first call is
  numbered 0 and is granted too: with \<open>maxRetries\<close> 3, the value the example of the
  repository configures, four reconnections are made, after 0, 50, 100 and 150 ms,
  where the claim says at most three.
\<close>

theorem reconnects_once_more_than_maxRetries:
  "maxRetriesCap (createRedisClient example_config) = 3
   \<and> reconnectStrategy (createRedisClient example_config) 0 = Inr 0
   \<and> reconnectStrategy (createRedisClient example_config) 3 = Inr 150
   \<and> reconnectStrategy (createRedisClient example_config) 4 = Inl RetriesExhausted
   \<and> reconnections (createRedisClient example_config) 0 = [0, 50, 100, 150]
   \<and> length (reconnections (createRedisClient example_config) 0) = 4"
proof -
  have cap: "maxRetriesCap (createRedisClient example_config) = 3"
    by (simp add: createRedisClient_def example_config_def or_default_def)
  have "[0 .. 3::int] = [0, 1, 2, 3]"
    by (simp add: upto_rec1)
  with cap show ?thesis
    by (simp add: reconnections_from reconnectStrategy_def)
qed

subsection \<open>The default of \<open>maxRetries\<close>\<close>

lemma falsy_maxRetries_cap:
  "maxRetries cfg = None \<or> maxRetries cfg = Some 0 \<Longrightarrow> maxRetriesCap (createRedisClient cfg) = 3"
  by (auto simp: createRedisClient_def or_default_def)

text \<open>
  Claim C10.  A configuration whose \<open>maxRetries\<close> is 0 or absent gives the client the
  cap 3, as the claim says (\<open>falsy_maxRetries_cap\<close>).  But the calls of the strategy
  are numbered from 0, so the calls 0, 1, 2 and 3 are granted: four reconnections are
  made, where the claim says up to three.
\<close>

theorem falsy_maxRetries_reconnects_four_times:
  "maxRetriesCap (createRedisClient (example_config\<lparr>maxRetries := Some 0\<rparr>)) = 3
   \<and> reconnections (createRedisClient (example_config\<lparr>maxRetries := Some 0\<rparr>)) 0
     = [0, 50, 100, 150]
   \<and> maxRetriesCap (createRedisClient (example_config\<lparr>maxRetries := None\<rparr>)) = 3
   \<and> reconnections (createRedisClient (example_config\<lparr>maxRetries := None\<rparr>)) 0
     = [0, 50, 100, 150]
   \<and> reconnectStrategy (createRedisClient (example_config\<lparr>maxRetries := Some 0\<rparr>)) 4
     = Inl RetriesExhausted"
proof -
  have zero: "maxRetriesCap (createRedisClient (example_config\<lparr>maxRetries := Some 0\<rparr>)) = 3"
    by (simp add: falsy_maxRetries_cap)
  have absent: "maxRetriesCap (createRedisClient (example_config\<lparr>maxRetries := None\<rparr>)) = 3"
    by (simp add: falsy_maxRetries_cap)
  have "[0 .. 3::int] = [0, 1, 2, 3]"
    by (simp add: upto_rec1)
  with zero absent show ?thesis
    by (simp add: reconnections_from reconnectStrategy_def)
qed

subsection \<open>\<open>delete\<close> and \<open>exists\<close>\<close>



subsection \<open>\<open>null\<close> from \<open>get\<close>\<close>

text \<open>
  Claim C9.  On a ready client with a reachable store, \<open>get(k)\<close> returns \<open>null\<close> when
  the store has no key \<open>k\<close>, when it holds the text \<open>null\<close> under \<open>k\<close>, and so after
  \<open>set(k, null)\<close> as well as after \<open>set(k, "null")\<close>, which both store that text.
\<close>

theorem get_null_is_ambiguous:
  assumes "isReady c" and "client c = Some t" and "online t"
  shows "(entries t k = None \<longrightarrow> fst (get k c) = Inr JNull)
       \<and> (\<forall>e. entries t k = Some (''null'', e) \<longrightarrow> fst (get k c) = Inr JNull)
       \<and> encode JNull = ''null''
       \<and> encode (JStr ''null'') = ''null''
       \<and> fst (get k (snd (set_value k JNull None c))) = Inr JNull
       \<and> fst (get k (snd (set_value k (JStr ''null'') None c))) = Inr JNull"
  using assms get_after_set [OF assms]
  by (auto simp: get_def client_get_def decode_def encode_def JSON_parse_null)

theorem get_null_is_ambiguous_witness:
  "fst (get ''k'' ready_client) = Inr JNull
   \<and> fst (get ''k'' (snd (set_value ''k'' JNull None ready_client))) = Inr JNull
   \<and> fst (get ''k'' (snd (set_value ''k'' (JStr ''null'') None ready_client))) = Inr JNull"
  using ready_client_ready get_null_is_ambiguous [of ready_client empty_store "''k''"]
  by (simp add: empty_store_def)

section \<open>The controller: properties\<close>

subsection \<open>Laws of asynchronous code\<close>

lemma await_resolve [simp]: "await (resolve a) k = k a"
  by (simp add: await_def resolve_def fun_eq_iff)

lemma await_emit [simp]: "await (emit e) k s = k () (s\<lparr>trace := trace s @ [e]\<rparr>)"
  by (simp add: await_def emit_def)

lemma await_request [simp]:
  "await (request env c) k s =
     (case respond env c of
        Inl e \<Rightarrow> (Inl e, s\<lparr>trace := trace s @ [Call c]\<rparr>)
      | Inr a \<Rightarrow> k a (s\<lparr>trace := trace s @ [Call c]\<rparr>))"
  by (simp add: await_def request_def split: sum.splits)

lemma in_order_simps [simp]:
  "in_order [] = resolve ()"
  "in_order (m # ms) = await m (\<lambda>_. in_order ms)"
  by (simp_all add: in_order_def)

lemma if_true_simps [simp]:
  "if_true True m = m"
  "if_true False m = resolve ()"
  by (simp_all add: if_true_def)

lemma await_assoc [simp]: "await (await m k) k' = await m (\<lambda>a. await (k a) k')"
  by (auto simp: await_def fun_eq_iff split: prod.splits sum.splits)

lemma await_unit [simp]: "await m (\<lambda>_. resolve ()) = (m :: unit action)"
  by (auto simp: await_def resolve_def fun_eq_iff split: prod.splits sum.splits)

lemma await_unit' [simp]: "await m resolve = (m :: unit action)"
  by (auto simp: await_def resolve_def fun_eq_iff split: prod.splits sum.splits)

lemma await_console [simp]:
  "await (console_log l) k s = k () (s\<lparr>trace := trace s @ [Console l]\<rparr>)"
  by (simp add: console_log_def)

lemma await_delay [simp]:
  "await (delay ms) k s = k () (s\<lparr>trace := trace s @ [Delay ms]\<rparr>)"
  by (simp add: delay_def)

lemma console_log_apply [simp]:
  "console_log l s = (Inr (), s\<lparr>trace := trace s @ [Console l]\<rparr>)"
  by (simp add: console_log_def emit_def)

lemma resolve_apply [simp]: "resolve a s = (Inr a, s)"
  by (simp add: resolve_def)

lemma await_redis_set:
  "await (redis_set k v e) cont s =
     (case set_value k v e (redisClient s) of
        (Inl er, c') \<Rightarrow> (Inl er, s\<lparr>redisClient := c'\<rparr>)
      | (Inr _, c') \<Rightarrow> cont () (s\<lparr>redisClient := c'\<rparr>))"
  by (simp add: await_def redis_set_def split: prod.splits sum.splits)

lemma added_append [simp]: "added s (s'\<lparr>trace := trace s @ es\<rparr>) = es"
  by (simp add: added_def)

lemma added_extends: "trace s' = trace s @ es \<Longrightarrow> added s s' = es"
  by (simp add: added_def)

subsection \<open>Closing and restarting\<close>

lemma close_handler:
  assumes "connection u = Some ConnClose"
  shows "on_connection_update cfg env u s =
     (if statusCode u = Some (loggedOut cfg)
      then (Inr (), s\<lparr>trace := trace s @ [Console ''Connection closed. You are logged out.'',
                                            Console ''connection update'']\<rparr>)
      else (Inr (), s\<lparr>trace := trace s @ [StartSock, Console ''connection update''],
                      handles := Suc (handles s), live := live s @ [handles s]\<rparr>))"
  using assms
  by (simp add: on_connection_update_def startSock_def await_def)

named_theorems keeps_handles_intros

lemma keeps_handles_resolve [keeps_handles_intros]: "keeps_handles (resolve a)"
  by (simp add: keeps_handles_def)

lemma keeps_handles_emit [keeps_handles_intros]: "keeps_handles (emit e)"
  by (simp add: keeps_handles_def emit_def)

lemma keeps_handles_console_log [keeps_handles_intros]: "keeps_handles (console_log l)"
  by (simp add: keeps_handles_def)

lemma keeps_handles_delay [keeps_handles_intros]: "keeps_handles (delay ms)"
  by (simp add: keeps_handles_def delay_def emit_def)

lemma keeps_handles_request [keeps_handles_intros]: "keeps_handles (request env c)"
  by (simp add: keeps_handles_def request_def)

lemma keeps_handles_redis_set [keeps_handles_intros]: "keeps_handles (redis_set k v e)"
  by (simp add: keeps_handles_def redis_set_def split: prod.splits)

lemma keeps_handles_await [keeps_handles_intros]:
  assumes "keeps_handles m" and "\<And>a. keeps_handles (k a)"
  shows "keeps_handles (await m k)"
  unfolding keeps_handles_def
proof
  fix s
  show "handles (snd (await m k s)) = handles s \<and> live (snd (await m k s)) = live s"
  proof (cases "m s")
    case (Pair r s')
    with assms(1) have s': "handles s' = handles s" "live s' = live s"
      by (auto simp: keeps_handles_def dest: spec [of _ s])
    show ?thesis
    proof (cases r)
      case (Inl e)
      with Pair s' show ?thesis by (simp add: await_def)
    next
      case (Inr a)
      with Pair s' assms(2) [of a] show ?thesis
        by (simp add: await_def keeps_handles_def)
    qed
  qed
qed

lemma keeps_handles_if_true [keeps_handles_intros]:
  "(b \<Longrightarrow> keeps_handles m) \<Longrightarrow> keeps_handles (if_true b m)"
  by (cases b) (simp_all add: keeps_handles_resolve)

lemma keeps_handles_for_each [keeps_handles_intros]:
  "(\<And>x. keeps_handles (body x)) \<Longrightarrow> keeps_handles (for_each xs body)"
  by (induction xs) (auto intro: keeps_handles_resolve keeps_handles_await)

lemma keeps_handles_if_present [keeps_handles_intros]:
  "(\<And>d. x = Some d \<Longrightarrow> keeps_handles (h d)) \<Longrightarrow> keeps_handles (if_present x h)"
  by (cases x) (simp_all add: if_present_def keeps_handles_def)

lemma keeps_handles_print_event [keeps_handles_intros]: "keeps_handles (print_event l x)"
  by (cases x) (simp_all add: print_event_def keeps_handles_def)

lemma keeps_handles_catch_null [keeps_handles_intros]:
  "keeps_handles m \<Longrightarrow> keeps_handles (catch_null m)"
  unfolding keeps_handles_def
proof (rule allI)
  fix s
  assume "\<forall>s. handles (snd (m s)) = handles s \<and> live (snd (m s)) = live s"
  then have "handles (snd (m s)) = handles s \<and> live (snd (m s)) = live s" ..
  then show "handles (snd (catch_null m s)) = handles s \<and> live (snd (catch_null m s)) = live s"
    by (cases "m s") (auto simp: catch_null_def split: sum.splits)
qed

lemma keeps_handles_saveCreds [keeps_handles_intros]: "keeps_handles (saveCreds env)"
  by (auto simp: keeps_handles_def saveCreds_def await_def request_def split: sum.splits)

lemma keeps_handles_in_order_Nil [keeps_handles_intros]: "keeps_handles (in_order [])"
  by (simp add: keeps_handles_def)

lemma keeps_handles_in_order_Cons [keeps_handles_intros]:
  "keeps_handles m \<Longrightarrow> keeps_handles (in_order ms) \<Longrightarrow> keeps_handles (in_order (m # ms))"
  by (simp add: keeps_handles_await)

lemma keeps_handles_sendMessageWTyping [keeps_handles_intros]:
  "keeps_handles (sendMessageWTyping env msg jid)"
  unfolding sendMessageWTyping_def by (intro keeps_handles_intros)

lemma keeps_handles_on_message [keeps_handles_intros]:
  "keeps_handles (on_message cfg env up m)"
  unfolding on_message_def
  by (cases "text_of m") (auto intro!: keeps_handles_intros)

lemma keeps_handles_on_messages_upsert [keeps_handles_intros]:
  "keeps_handles (on_messages_upsert cfg env up)"
  unfolding on_messages_upsert_def by (intro keeps_handles_intros)

lemma keeps_handles_on_messages_update [keeps_handles_intros]:
  "keeps_handles (on_messages_update us)"
  unfolding on_messages_update_def by (intro keeps_handles_intros)

lemma keeps_handles_on_history_set [keeps_handles_intros]:
  "keeps_handles (on_history_set h)"
  unfolding on_history_set_def by (intro keeps_handles_intros)

lemma keeps_handles_on_contact [keeps_handles_intros]:
  "keeps_handles (on_contact env c)"
  unfolding on_contact_def
  by (cases "imgUrl c") (auto intro!: keeps_handles_intros)

lemma keeps_handles_pairing [keeps_handles_intros]:
  "keeps_handles (pairing cfg env u)"
  unfolding pairing_def by (intro keeps_handles_intros)

lemma keeps_handles_on_connection_update:
  assumes "\<not> (connection u = Some ConnClose \<and> statusCode u \<noteq> Some (loggedOut cfg))"
  shows "keeps_handles (on_connection_update cfg env u)"
  unfolding on_connection_update_def using assms
  by (auto intro!: keeps_handles_intros)

lemma keeps_handles_process:
  assumes "\<not> restarts cfg ev"
  shows "keeps_handles (process cfg env ev)"
  unfolding process_def handlers_def using assms
  by (intro keeps_handles_intros keeps_handles_on_connection_update)
     (auto simp: restarts_def)

lemma deliver_dead: "h \<notin> set (live s) \<Longrightarrow> deliver cfg (h, env, ev) s = s"
  by (simp add: deliver_def)

lemma run_terminated: "live s = [] \<Longrightarrow> run cfg ds s = s"
proof (induction ds)
  case Nil
  show ?case by (simp add: run_def)
next
  case (Cons d ds)
  obtain h env ev where d: "d = (h, env, ev)" by (cases d) auto
  from Cons.prems have "deliver cfg d s = s"
    unfolding d by (intro deliver_dead) simp
  with Cons show ?case by (simp add: run_def)
qed

lemma deliver_logged_out:
  assumes "live s = [h]" and "ev_connection_update ev = Some u"
    and "connection u = Some ConnClose" and "statusCode u = Some (loggedOut cfg)"
  shows "live (deliver cfg (h, env, ev) s) = [] \<and> handles (deliver cfg (h, env, ev) s) = handles s"
proof -
  from assms(2-4) have "\<not> restarts cfg ev" by (simp add: restarts_def)
  then have "keeps_handles (process cfg env ev)" by (rule keeps_handles_process)
  then have "handles (snd (process cfg env ev s)) = handles s"
    and "live (snd (process cfg env ev s)) = live s"
    by (simp_all add: keeps_handles_def)
  moreover from assms(2,3) have "closes ev" by (simp add: closes_def)
  ultimately show ?thesis using assms(1) by (simp add: deliver_def Let_def)
qed

text \<open>
  Claim C2.  Take a \<open>connection.update\<close> whose connection field is \<open>close\<close>.  If the
  status code of the cause is the logged-out code, the handler resolves, creates no
  session handle and leaves the persisted credentials as they are; and when the handle
  that delivered the event was the only live one, no handle is live afterwards and no
  later delivery, whatever it is, creates one.  For every other status code, an absent
  one included, the handler calls \<open>startSock\<close>: there is one more session handle, it is
  live, and the persisted credentials are as they were.
\<close>

theorem close_restarts_unless_logged_out:
  assumes "connection u = Some ConnClose"
  shows "(statusCode u = Some (loggedOut cfg) \<longrightarrow>
            fst (on_connection_update cfg env u s) = Inr ()
          \<and> handles (snd (on_connection_update cfg env u s)) = handles s
          \<and> StartSock \<notin> set (added s (snd (on_connection_update cfg env u s)))
          \<and> persisted (snd (on_connection_update cfg env u s)) = persisted s
          \<and> (\<forall>h (ev::events) ds. live s = [h] \<and> ev_connection_update ev = Some u \<longrightarrow>
                live (deliver cfg (h, env, ev) s) = []
              \<and> handles (run cfg ds (deliver cfg (h, env, ev) s)) = handles s))
       \<and> (statusCode u \<noteq> Some (loggedOut cfg) \<longrightarrow>
            fst (on_connection_update cfg env u s) = Inr ()
          \<and> handles (snd (on_connection_update cfg env u s)) = Suc (handles s)
          \<and> live (snd (on_connection_update cfg env u s)) = live s @ [handles s]
          \<and> StartSock \<in> set (added s (snd (on_connection_update cfg env u s)))
          \<and> persisted (snd (on_connection_update cfg env u s)) = persisted s)"
proof (intro conjI impI)
  assume out: "statusCode u = Some (loggedOut cfg)"
  show "\<forall>h (ev::events) ds. live s = [h] \<and> ev_connection_update ev = Some u \<longrightarrow>
                live (deliver cfg (h, env, ev) s) = []
              \<and> handles (run cfg ds (deliver cfg (h, env, ev) s)) = handles s"
  proof (intro allI impI)
    fix h and ev :: events and ds
    assume "live s = [h] \<and> ev_connection_update ev = Some u"
    then have "live (deliver cfg (h, env, ev) s) = []"
      and "handles (deliver cfg (h, env, ev) s) = handles s"
      using deliver_logged_out [of s h ev u cfg env] assms out by simp_all
    then show "live (deliver cfg (h, env, ev) s) = []
              \<and> handles (run cfg ds (deliver cfg (h, env, ev) s)) = handles s"
      by (simp add: run_terminated)
  qed
qed (simp_all add: close_handler [OF assms] added_def)

theorem close_restarts_unless_logged_out_witness:
  "handles (main example_config ''creds'') = 1
   \<and> live (main example_config ''creds'') = [0]
   \<and> handles (snd (on_connection_update example_settings (accepting ''x'') (closed_with (Some 401))
        (main example_config ''creds''))) = 1
   \<and> live (deliver example_settings
        (0, accepting ''x'', no_events\<lparr>ev_connection_update := Some (closed_with (Some 401))\<rparr>)
        (main example_config ''creds'')) = []
   \<and> handles (snd (on_connection_update example_settings (accepting ''x'') (closed_with (Some 428))
        (main example_config ''creds''))) = 2
   \<and> handles (snd (on_connection_update example_settings (accepting ''x'') (closed_with None)
        (main example_config ''creds''))) = 2
   \<and> persisted (snd (on_connection_update example_settings (accepting ''x'') (closed_with None)
        (main example_config ''creds''))) = ''creds''"
proof -
  have start: "handles (main example_config ''creds'') = 1"
    "live (main example_config ''creds'') = [0]"
    "persisted (main example_config ''creds'') = ''creds''"
    by (simp_all add: main_def startSock_def)
  have closed: "connection (closed_with code) = Some ConnClose" for code
    by (simp add: closed_with_def)
  show ?thesis
    using start
      close_restarts_unless_logged_out [OF closed, of "Some 401" example_settings "accepting ''x''"
        "main example_config ''creds''"]
      close_restarts_unless_logged_out [OF closed, of "Some 428" example_settings "accepting ''x''"
        "main example_config ''creds''"]
      close_restarts_unless_logged_out [OF closed, of None example_settings "accepting ''x''"
        "main example_config ''creds''"]
    by (simp add: closed_with_def example_settings_def)
qed

subsection \<open>The automatic reply\<close>

lemma traces_await_quiet:
  assumes "traces m quiet"
    and "\<And>a. traces (k a) (\<lambda>es. prefix (filter reply_effect es) ch)"
  shows "traces (await m k) (\<lambda>es. prefix (filter reply_effect es) ch)"
  unfolding traces_def
proof
  fix s
  obtain r s1 where m: "m s = (r, s1)" by (cases "m s")
  from assms(1) m obtain es1 where es1: "trace s1 = trace s @ es1" "quiet es1"
    by (auto simp: traces_def dest: spec [of _ s])
  show "\<exists>es. trace (snd (await m k s)) = trace s @ es \<and> prefix (filter reply_effect es) ch"
  proof (cases r)
    case (Inl e)
    with m es1 show ?thesis by (auto simp: await_def quiet_def)
  next
    case (Inr a)
    from assms(2) [of a] obtain es2 where
      "trace (snd (k a s1)) = trace s1 @ es2" "prefix (filter reply_effect es2) ch"
      by (auto simp: traces_def dest: spec [of _ s1])
    with Inr m es1 show ?thesis by (auto simp: await_def quiet_def)
  qed
qed

lemma traces_trigger:
  assumes "\<not> reply_effect (Call c)"
  shows "traces (if_true b (await (request env c) (\<lambda>a. console_log (line a)))) quiet"
  using assms
  by (cases b) (auto simp: traces_def quiet_def reply_effect_def split: sum.splits)

lemma traces_reply:
  "traces (await (console_log l) (\<lambda>_.
           await (request env (ReadMessages [k])) (\<lambda>_.
           sendMessageWTyping env ''Hello there!'' (remoteJid k))))
     (\<lambda>es. prefix (filter reply_effect es) (choreography k))"
  unfolding traces_def
  by (simp add: sendMessageWTyping_def choreography_def reply_effect_def request_def emit_def
      split: sum.splits)

lemma traces_on_message:
  assumes "text_of m = Some txt" and "\<not> fromMe (msg_key m)" and "doReplies cfg"
    and "\<not> isJidNewsletter cfg (remoteJid (msg_key m))"
  shows "traces (on_message cfg env up m)
           (\<lambda>es. prefix (filter reply_effect es) (choreography (msg_key m)))"
proof -
  have "on_message cfg env up m =
     await (if_true (txt = ''requestPlaceholder'' \<and> \<not> truthy_string (requestId up))
                (await (request env (RequestPlaceholderResend (msg_key m))) (\<lambda>messageId.
                 console_log (''requested placeholder resync, id='' @ messageId)))) (\<lambda>_.
     await (if_true (txt = ''onDemandHistSync'')
                (await (request env (FetchMessageHistory 50 (msg_key m) (messageTimestamp m)))
                   (\<lambda>messageId.
                 console_log (''requested on-demand sync, id='' @ messageId)))) (\<lambda>_.
     await (console_log (''replying to '' @ remoteJid (msg_key m))) (\<lambda>_.
           await (request env (ReadMessages [msg_key m])) (\<lambda>_.
           sendMessageWTyping env ''Hello there!'' (remoteJid (msg_key m))))))"
    using assms by (simp add: on_message_def del: await_assoc await_console await_request)
  then show ?thesis
    by (simp only:)
       (intro traces_await_quiet traces_trigger traces_reply, simp_all add: reply_effect_def)
qed

text \<open>
  Claim C5.  Take an inbound text message that is replied to: it has a text, is not
  from the user, replies are switched on and the chat is not a newsletter.  Handling
  it only appends to the trace, and the reply effects it appends are an initial part of
  the sequence \<open>readMessages\<close> on the key of the message, \<open>presenceSubscribe\<close>, a
  delay of 500 ms, \<open>sendPresenceUpdate('composing')\<close>, a delay of 2000 ms,
  \<open>sendPresenceUpdate('paused')\<close>, \<open>sendMessage\<close>, in this order.  When the session
  handle resolves every request, they are the whole sequence and the handler resolves.
\<close>

theorem auto_reply_choreography:
  assumes "text_of m = Some txt" and "\<not> fromMe (msg_key m)" and "doReplies cfg"
    and "\<not> isJidNewsletter cfg (remoteJid (msg_key m))"
  shows "trace (snd (on_message cfg env up m s))
           = trace s @ added s (snd (on_message cfg env up m s))
       \<and> prefix (filter reply_effect (added s (snd (on_message cfg env up m s))))
                (choreography (msg_key m))
       \<and> ((\<forall>c. \<exists>a. respond env c = Inr a) \<longrightarrow>
             fst (on_message cfg env up m s) = Inr ()
           \<and> filter reply_effect (added s (snd (on_message cfg env up m s)))
               = choreography (msg_key m))"
proof -
  from traces_on_message [OF assms, of env up] obtain es where
    es: "trace (snd (on_message cfg env up m s)) = trace s @ es"
    and ordered: "prefix (filter reply_effect es) (choreography (msg_key m))"
    by (auto simp: traces_def dest: spec [of _ s])
  from es have added: "added s (snd (on_message cfg env up m s)) = es"
    by (rule added_extends)
  have complete: "fst (on_message cfg env up m s) = Inr ()
           \<and> filter reply_effect (added s (snd (on_message cfg env up m s)))
               = choreography (msg_key m)"
    if "\<forall>c. \<exists>a. respond env c = Inr a"
  proof -
    from that have "\<exists>reply. \<forall>c. respond env c = Inr (reply c)"
      by (rule choice)
    then obtain reply where "\<forall>c. respond env c = Inr (reply c)" ..
    then have "respond env = (\<lambda>c. Inr (reply c))" by (simp add: fun_eq_iff)
    with assms show ?thesis
      by (simp add: on_message_def sendMessageWTyping_def choreography_def reply_effect_def
          added_def if_true_def)
  qed
  from es ordered complete show ?thesis unfolding added by blast
qed

theorem auto_reply_choreography_witness:
  "filter reply_effect
     (added (main example_config ''creds'')
        (snd (on_message example_settings (accepting ''id'') (notify_batch [inbound_text ''hi''])
                (inbound_text ''hi'') (main example_config ''creds''))))
   = [ Call (ReadMessages [msg_key (inbound_text ''hi'')]),
       Call (PresenceSubscribe ''111@s.whatsapp.net''),
       Delay 500,
       Call (SendPresenceUpdate ''composing'' ''111@s.whatsapp.net''),
       Delay 2000,
       Call (SendPresenceUpdate ''paused'' ''111@s.whatsapp.net''),
       Call (SendMessage ''111@s.whatsapp.net'' ''Hello there!'') ]"
proof -
  have "text_of (inbound_text ''hi'') = Some ''hi''"
    by (simp add: text_of_def inbound_text_def truthy_string_def)
  moreover have "\<not> fromMe (msg_key (inbound_text ''hi''))"
    by (simp add: inbound_text_def)
  moreover have "doReplies example_settings"
    by (simp add: example_settings_def)
  moreover have "\<not> isJidNewsletter example_settings (remoteJid (msg_key (inbound_text ''hi'')))"
    by (simp add: example_settings_def)
  moreover have "\<forall>c. \<exists>a. respond (accepting ''id'') c = Inr a"
    by (simp add: accepting_def)
  ultimately show ?thesis
    using auto_reply_choreography [of "inbound_text ''hi''" "''hi''" example_settings
        "accepting ''id''" "notify_batch [inbound_text ''hi'']" "main example_config ''creds''"]
    by (simp add: choreography_def inbound_text_def)
qed

subsection \<open>The pairing code and the cache\<close>

named_theorems keeps_unready_intros

lemma keeps_unready_resolve [keeps_unready_intros]: "keeps_unready (resolve a)"
  by (simp add: keeps_unready_def)

lemma keeps_unready_emit [keeps_unready_intros]: "keeps_unready (emit e)"
  by (simp add: keeps_unready_def emit_def)

lemma keeps_unready_console_log [keeps_unready_intros]: "keeps_unready (console_log l)"
  by (simp add: keeps_unready_def)

lemma keeps_unready_delay [keeps_unready_intros]: "keeps_unready (delay ms)"
  by (simp add: keeps_unready_def delay_def emit_def)

lemma keeps_unready_request [keeps_unready_intros]: "keeps_unready (request env c)"
  by (simp add: keeps_unready_def request_def)

lemma keeps_unready_startSock [keeps_unready_intros]: "keeps_unready startSock"
  by (simp add: keeps_unready_def startSock_def)

lemma keeps_unready_redis_set [keeps_unready_intros]: "keeps_unready (redis_set k v e)"
  by (simp add: keeps_unready_def redis_set_def set_value_def)

lemma keeps_unready_await [keeps_unready_intros]:
  assumes "keeps_unready m" and "\<And>a. keeps_unready (k a)"
  shows "keeps_unready (await m k)"
  unfolding keeps_unready_def
proof (intro allI impI)
  fix s :: controller
  assume unready: "\<not> isReady (redisClient s)"
  obtain r s1 where m: "m s = (r, s1)" by (cases "m s")
  with assms(1) unready have s1: "redisClient s1 = redisClient s"
    by (auto simp: keeps_unready_def dest: spec [of _ s])
  show "redisClient (snd (await m k s)) = redisClient s"
  proof (cases r)
    case (Inl e)
    with m s1 show ?thesis by (simp add: await_def)
  next
    case (Inr a)
    from assms(2) [of a] unready s1 have "redisClient (snd (k a s1)) = redisClient s1"
      by (simp add: keeps_unready_def)
    with Inr m s1 show ?thesis by (simp add: await_def)
  qed
qed

lemma keeps_unready_if_true [keeps_unready_intros]:
  "(b \<Longrightarrow> keeps_unready m) \<Longrightarrow> keeps_unready (if_true b m)"
  by (cases b) (simp_all add: keeps_unready_resolve)

lemma keeps_unready_if [keeps_unready_intros]:
  "keeps_unready m \<Longrightarrow> keeps_unready m' \<Longrightarrow> keeps_unready (if b then m else m')"
  by simp

lemma keeps_unready_for_each [keeps_unready_intros]:
  "(\<And>x. keeps_unready (body x)) \<Longrightarrow> keeps_unready (for_each xs body)"
  by (induction xs) (auto intro: keeps_unready_resolve keeps_unready_await)

lemma keeps_unready_if_present [keeps_unready_intros]:
  "(\<And>d. x = Some d \<Longrightarrow> keeps_unready (h d)) \<Longrightarrow> keeps_unready (if_present x h)"
  by (cases x) (simp_all add: if_present_def keeps_unready_def)

lemma keeps_unready_print_event [keeps_unready_intros]: "keeps_unready (print_event l x)"
  by (cases x) (simp_all add: print_event_def keeps_unready_def)

lemma keeps_unready_catch_null [keeps_unready_intros]:
  "keeps_unready m \<Longrightarrow> keeps_unready (catch_null m)"
  unfolding keeps_unready_def
proof (intro allI impI)
  fix s :: controller
  assume "\<forall>s. \<not> isReady (redisClient s) \<longrightarrow> redisClient (snd (m s)) = redisClient s"
    and "\<not> isReady (redisClient s)"
  then have "redisClient (snd (m s)) = redisClient s" by simp
  then show "redisClient (snd (catch_null m s)) = redisClient s"
    by (cases "m s") (auto simp: catch_null_def split: sum.splits)
qed

lemma keeps_unready_saveCreds [keeps_unready_intros]: "keeps_unready (saveCreds env)"
  by (auto simp: keeps_unready_def saveCreds_def await_def request_def split: sum.splits)

lemma keeps_unready_in_order_Nil [keeps_unready_intros]: "keeps_unready (in_order [])"
  by (simp add: keeps_unready_def)

lemma keeps_unready_in_order_Cons [keeps_unready_intros]:
  "keeps_unready m \<Longrightarrow> keeps_unready (in_order ms) \<Longrightarrow> keeps_unready (in_order (m # ms))"
  by (simp add: keeps_unready_await)

lemma keeps_unready_on_message [keeps_unready_intros]:
  "keeps_unready (on_message cfg env up m)"
  unfolding on_message_def sendMessageWTyping_def
  by (cases "text_of m") (auto intro!: keeps_unready_intros)

lemma keeps_unready_on_contact [keeps_unready_intros]:
  "keeps_unready (on_contact env c)"
  unfolding on_contact_def
  by (cases "imgUrl c") (auto intro!: keeps_unready_intros)

lemma keeps_unready_process: "keeps_unready (process cfg env ev)"
  unfolding process_def handlers_def on_connection_update_def pairing_def
    on_messages_upsert_def on_messages_update_def on_history_set_def
  by (intro keeps_unready_intros)

lemma deliver_unready:
  assumes "\<not> isReady (redisClient s)"
  shows "redisClient (deliver cfg d s) = redisClient s"
proof -
  obtain h env ev where d: "d = (h, env, ev)" by (cases d) auto
  from keeps_unready_process [of cfg env ev] assms
  have "redisClient (snd (process cfg env ev s)) = redisClient s"
    by (simp add: keeps_unready_def)
  then show ?thesis by (simp add: d deliver_def Let_def)
qed

lemma run_unready:
  "\<not> isReady (redisClient s) \<Longrightarrow> redisClient (run cfg ds s) = redisClient s"
proof (induction ds arbitrary: s)
  case Nil
  show ?case by (simp add: run_def)
next
  case (Cons d ds)
  from Cons.prems have same: "redisClient (deliver cfg d s) = redisClient s"
    by (rule deliver_unready)
  with Cons.prems have "\<not> isReady (redisClient (deliver cfg d s))" by simp
  from Cons.IH [OF this] same show ?case by (simp add: run_def)
qed

text \<open>
  Whatever is delivered to the module, its cache client stays as the constructor made
  it, which is not ready: no handler calls \<open>connect()\<close>.
\<close>

theorem cache_client_never_connected:
  "redisClient (run cfg ds (main redisConfig stored)) = createRedisClient redisConfig
   \<and> \<not> isReady (createRedisClient redisConfig)"
proof -
  have "redisClient (main redisConfig stored) = createRedisClient redisConfig"
    by (simp add: main_def startSock_def)
  moreover have "\<not> isReady (createRedisClient redisConfig)"
    by (rule not_ready_states)
  ultimately show ?thesis using run_unready [of "main redisConfig stored" cfg ds] by simp
qed

lemma issuance_when_unready:
  assumes "\<not> isReady (redisClient s)" and "connection u = None" and "\<not> registered env"
    and "usePairingCode cfg" and "respond env (RequestPairingCode (phoneNumber cfg)) = Inr code"
  shows "on_connection_update cfg env u s =
           (Inl NotConnected,
            s\<lparr>trace := trace s @ [Console ''connection update'',
                                  Call (RequestPairingCode (phoneNumber cfg))]\<rparr>)"
  using assms
  by (simp add: on_connection_update_def pairing_def await_redis_set set_value_def)

lemma issuance_when_ready:
  assumes "isReady (redisClient s)" and "client (redisClient s) = Some t" and "online t"
    and "connection u = None" and "\<not> registered env"
    and "usePairingCode cfg" and "respond env (RequestPairingCode (phoneNumber cfg)) = Inr code"
    and "s' = snd (on_connection_update cfg env u s)"
  shows "isReady (redisClient s')
       \<and> (\<exists>t'. client (redisClient s') = Some t' \<and> online t'
             \<and> entries t' = (entries t)(pairing_key (phoneNumber cfg) \<mapsto> (code, Some 300)))"
  using assms
  by (cases "truthy_string (qr u)")
     (simp_all add: on_connection_update_def pairing_def await_redis_set set_value_def
        client_setEx_def encode_def truthy_number_def isReady_def)

text \<open>
  With a cache client that is ready, two issuances in a row for the same phone number
  write the same key, and reading it gives the second code (as \<open>get\<close> decodes it).
\<close>

theorem second_issuance_overwrites:
  assumes "isReady (redisClient s)" and "client (redisClient s) = Some t" and "online t"
    and "connection u = None" and "\<not> registered env1" and "\<not> registered env2"
    and "usePairingCode cfg"
    and "respond env1 (RequestPairingCode (phoneNumber cfg)) = Inr code1"
    and "respond env2 (RequestPairingCode (phoneNumber cfg)) = Inr code2"
  shows "fst (get (pairing_key (phoneNumber cfg))
           (redisClient (snd (on_connection_update cfg env2 u
              (snd (on_connection_update cfg env1 u s))))))
         = Inr (decode code2)"
proof -
  let ?s1 = "snd (on_connection_update cfg env1 u s)"
  let ?s2 = "snd (on_connection_update cfg env2 u ?s1)"
  from issuance_when_ready [OF assms(1-5,7,8) refl] obtain t1 where
    s1: "isReady (redisClient ?s1)" "client (redisClient ?s1) = Some t1" "online t1"
    by auto
  from issuance_when_ready [OF s1 assms(4,6,7,9) refl] obtain t2 where
    "isReady (redisClient ?s2)" "client (redisClient ?s2) = Some t2" "online t2"
    "entries t2 = (entries t1)(pairing_key (phoneNumber cfg) \<mapsto> (code2, Some 300))"
    by auto
  then show ?thesis
    by (simp add: get_def client_get_def)
qed

theorem second_issuance_overwrites_witness:
  "fst (get ''pairing_code:555''
         (redisClient (snd (on_connection_update example_settings (accepting ''WXYZ5678'')
            awaiting_pairing
            (snd (on_connection_update example_settings (accepting ''ABCD1234'')
               awaiting_pairing ready_module))))))
   = Inr (JStr ''WXYZ5678'')"
proof -
  have "JSON_parse ''WXYZ5678'' = None"
    by (simp add: JSON_parse_def parse_literal_def is_digit_def skip_ws_def is_ws_def)
  then have "decode ''WXYZ5678'' = JStr ''WXYZ5678''"
    by (simp add: decode_def)
  moreover have "isReady (redisClient ready_module)"
    and "client (redisClient ready_module) = Some empty_store"
    using ready_client_ready by (simp_all add: ready_module_def)
  moreover have "online empty_store" using ready_client_ready by simp
  moreover have "connection awaiting_pairing = None" by (simp add: awaiting_pairing_def)
  moreover have "\<not> registered (accepting code)" for code by (simp add: accepting_def)
  moreover have "usePairingCode example_settings"
    and "phoneNumber example_settings = Some ''555''"
    by (simp_all add: example_settings_def)
  moreover have "respond (accepting code) c = Inr code" for code c by (simp add: accepting_def)
  ultimately show ?thesis
    using second_issuance_overwrites [of ready_module empty_store awaiting_pairing
        "accepting ''ABCD1234''" "accepting ''WXYZ5678''" example_settings
        "''ABCD1234''" "''WXYZ5678''"]
    by (simp add: pairing_key_def template_def)
qed

text \<open>
  Claim C6, on the module as it is written.  The first session is started and asks for
  a pairing code for the phone number 555; the session handle answers \<open>ABCD1234\<close>.
  The handler then rejects with \<open>NotConnected\<close>: the code is requested, nothing is
  stored, the cache client has no underlying client, and the code is not printed.
\<close>

theorem pairing_code_not_cached:
  "process example_settings (accepting ''ABCD1234'')
     (no_events\<lparr>ev_connection_update := Some awaiting_pairing\<rparr>)
     (main example_config ''creds'')
   = (Inl NotConnected,
      (main example_config ''creds'')
        \<lparr>trace := [StartSock, Console ''connection update'',
                   Call (RequestPairingCode (Some ''555''))]\<rparr>)
   \<and> client (redisClient (main example_config ''creds'')) = None"
proof -
  let ?s = "main example_config ''creds''"
  have unready: "\<not> isReady (redisClient ?s)"
    by (simp add: main_def startSock_def isReady_def createRedisClient_def)
  have "on_connection_update example_settings (accepting ''ABCD1234'') awaiting_pairing ?s
        = (Inl NotConnected,
           ?s\<lparr>trace := trace ?s @ [Console ''connection update'',
                                    Call (RequestPairingCode (phoneNumber example_settings))]\<rparr>)"
    by (rule issuance_when_unready [OF unready])
       (simp_all add: awaiting_pairing_def accepting_def example_settings_def)
  moreover have "trace ?s = [StartSock]"
    by (simp add: main_def startSock_def)
  moreover have "phoneNumber example_settings = Some ''555''"
    by (simp add: example_settings_def)
  moreover have "client (redisClient ?s) = None"
    by (simp add: main_def startSock_def createRedisClient_def)
  ultimately show ?thesis
    by (simp add: process_def handlers_def if_present_def no_events_def await_def
        del: await_request await_console await_assoc)
qed

subsection \<open>Rejections\<close>

lemma in_order_rejected:
  "in_order pre s = (Inr (), s1) \<Longrightarrow> m s1 = (Inl e, s') \<Longrightarrow>
   in_order (pre @ m # post) s = (Inl e, s')"
proof (induction pre arbitrary: s)
  case Nil
  then show ?case by (simp add: await_def)
next
  case (Cons p pre)
  obtain r s0 where p: "p s = (r, s0)" by (cases "p s")
  with Cons.prems(1) obtain "r = Inr ()" and "in_order pre s0 = (Inr (), s1)"
    by (cases r) (auto simp: await_def)
  with Cons.IH [OF _ Cons.prems(2)] p show ?case
    by (simp add: await_def)
qed

lemma for_each_rejected:
  "for_each pre body s = (Inr (), s1) \<Longrightarrow> body x s1 = (Inl e, s') \<Longrightarrow>
   for_each (pre @ x # post) body s = (Inl e, s')"
proof (induction pre arbitrary: s)
  case Nil
  then show ?case by (simp add: await_def)
next
  case (Cons p pre)
  obtain r s0 where p: "body p s = (r, s0)" by (cases "body p s")
  with Cons.prems(1) obtain "r = Inr ()" and "for_each pre body s0 = (Inr (), s1)"
    by (cases r) (auto simp: await_def)
  with Cons.IH [OF _ Cons.prems(2)] p show ?case
    by (simp add: await_def)
qed







named_theorems uncontained_intros

lemma uncontained_silent:
  "(\<And>s. trace (snd (m s)) = trace s) \<Longrightarrow> uncontained env m"
  unfolding uncontained_def
proof
  fix s
  assume "\<And>s. trace (snd (m s)) = trace s"
  then have "trace (snd (m s)) = trace s @ []" by simp
  then show "\<exists>es. trace (snd (m s)) = trace s @ es
        \<and> (\<forall>c e. Call c \<in> set es \<and> respond env c = Inl e \<and> \<not> picture_request c \<longrightarrow>
              fst (m s) = Inl e \<and> es \<noteq> [] \<and> last es = Call c)"
    by (intro exI [of _ "[]"]) simp
qed

lemma uncontained_resolve [uncontained_intros]: "uncontained env (resolve a)"
  by (rule uncontained_silent) simp

lemma uncontained_redis_set [uncontained_intros]: "uncontained env (redis_set k v x)"
  by (rule uncontained_silent) (simp add: redis_set_def split: prod.splits)

lemma uncontained_emit:
  "(\<And>c. e \<noteq> Call c) \<Longrightarrow> uncontained env (emit e)"
  unfolding uncontained_def
proof
  fix s
  assume "\<And>c. e \<noteq> Call c"
  then show "\<exists>es. trace (snd (emit e s)) = trace s @ es
        \<and> (\<forall>c x. Call c \<in> set es \<and> respond env c = Inl x \<and> \<not> picture_request c \<longrightarrow>
              fst (emit e s) = Inl x \<and> es \<noteq> [] \<and> last es = Call c)"
    by (intro exI [of _ "[e]"]) (auto simp: emit_def)
qed

lemma uncontained_console_log [uncontained_intros]: "uncontained env (console_log l)"
  unfolding console_log_def by (rule uncontained_emit) simp

lemma uncontained_delay [uncontained_intros]: "uncontained env (delay ms)"
  unfolding delay_def by (rule uncontained_emit) simp

lemma uncontained_startSock [uncontained_intros]: "uncontained env startSock"
  unfolding uncontained_def
proof
  fix s
  show "\<exists>es. trace (snd (startSock s)) = trace s @ es
        \<and> (\<forall>c x. Call c \<in> set es \<and> respond env c = Inl x \<and> \<not> picture_request c \<longrightarrow>
              fst (startSock s) = Inl x \<and> es \<noteq> [] \<and> last es = Call c)"
    by (intro exI [of _ "[StartSock]"]) (simp add: startSock_def)
qed

lemma uncontained_request [uncontained_intros]: "uncontained env (request env c)"
  unfolding uncontained_def
proof
  fix s
  show "\<exists>es. trace (snd (request env c s)) = trace s @ es
        \<and> (\<forall>c' x. Call c' \<in> set es \<and> respond env c' = Inl x \<and> \<not> picture_request c' \<longrightarrow>
              fst (request env c s) = Inl x \<and> es \<noteq> [] \<and> last es = Call c')"
    by (intro exI [of _ "[Call c]"]) (simp add: request_def)
qed

lemma uncontained_catch_picture [uncontained_intros]:
  "uncontained env (catch_null (request env (ProfilePictureUrl jid)))"
  unfolding uncontained_def
proof
  fix s
  let ?m = "catch_null (request env (ProfilePictureUrl jid))"
  have "trace (snd (?m s)) = trace s @ [Call (ProfilePictureUrl jid)]"
    by (simp add: catch_null_def request_def split: sum.splits)
  then show "\<exists>es. trace (snd (?m s)) = trace s @ es
        \<and> (\<forall>c' x. Call c' \<in> set es \<and> respond env c' = Inl x \<and> \<not> picture_request c' \<longrightarrow>
              fst (?m s) = Inl x \<and> es \<noteq> [] \<and> last es = Call c')"
    by (intro exI [of _ "[Call (ProfilePictureUrl jid)]"]) (simp add: picture_request_def)
qed

lemma uncontained_await [uncontained_intros]:
  assumes m: "uncontained env m" and k: "\<And>a. uncontained env (k a)"
  shows "uncontained env (await m k)"
  unfolding uncontained_def
proof
  fix s
  obtain r s1 where ms: "m s = (r, s1)" by (cases "m s")
  from m obtain es1 where es1: "trace (snd (m s)) = trace s @ es1"
    and rej1: "\<forall>c e. Call c \<in> set es1 \<and> respond env c = Inl e \<and> \<not> picture_request c \<longrightarrow>
              fst (m s) = Inl e \<and> es1 \<noteq> [] \<and> last es1 = Call c"
    unfolding uncontained_def by blast
  show "\<exists>es. trace (snd (await m k s)) = trace s @ es
        \<and> (\<forall>c e. Call c \<in> set es \<and> respond env c = Inl e \<and> \<not> picture_request c \<longrightarrow>
              fst (await m k s) = Inl e \<and> es \<noteq> [] \<and> last es = Call c)"
  proof (cases r)
    case (Inl e1)
    with ms have "await m k s = (Inl e1, s1)" by (simp add: await_def)
    with es1 rej1 ms Inl show ?thesis by (intro exI [of _ es1]) simp
  next
    case (Inr a)
    with ms have aw: "await m k s = k a s1" by (simp add: await_def)
    from k [of a] obtain es2 where es2: "trace (snd (k a s1)) = trace s1 @ es2"
      and rej2: "\<forall>c e. Call c \<in> set es2 \<and> respond env c = Inl e \<and> \<not> picture_request c \<longrightarrow>
              fst (k a s1) = Inl e \<and> es2 \<noteq> [] \<and> last es2 = Call c"
      unfolding uncontained_def by blast
    from es1 ms have s1: "trace s1 = trace s @ es1" by simp
    have none1: "\<not> (Call c \<in> set es1 \<and> respond env c = Inl e \<and> \<not> picture_request c)" for c e
      using rej1 ms Inr by auto
    have rej: "\<forall>c e. Call c \<in> set (es1 @ es2) \<and> respond env c = Inl e \<and> \<not> picture_request c \<longrightarrow>
              fst (k a s1) = Inl e \<and> es1 @ es2 \<noteq> [] \<and> last (es1 @ es2) = Call c"
    proof (intro allI impI)
      fix c e
      assume h: "Call c \<in> set (es1 @ es2) \<and> respond env c = Inl e \<and> \<not> picture_request c"
      with none1 [of c e] have "Call c \<in> set es2" by auto
      with h rej2 have "fst (k a s1) = Inl e \<and> es2 \<noteq> [] \<and> last es2 = Call c" by blast
      then show "fst (k a s1) = Inl e \<and> es1 @ es2 \<noteq> [] \<and> last (es1 @ es2) = Call c"
        by simp
    qed
    from es2 s1 have "trace (snd (k a s1)) = trace s @ es1 @ es2" by simp
    with rej show ?thesis unfolding aw by (intro exI [of _ "es1 @ es2"] conjI)
  qed
qed

lemma uncontained_if_true [uncontained_intros]:
  "(b \<Longrightarrow> uncontained env m) \<Longrightarrow> uncontained env (if_true b m)"
  by (cases b) (simp_all add: if_true_def uncontained_resolve)

lemma uncontained_if [uncontained_intros]:
  "uncontained env m \<Longrightarrow> uncontained env m' \<Longrightarrow> uncontained env (if b then m else m')"
  by simp

lemma uncontained_for_each [uncontained_intros]:
  "(\<And>x. uncontained env (body x)) \<Longrightarrow> uncontained env (for_each xs body)"
  by (induction xs) (simp_all add: uncontained_resolve uncontained_await)

lemma uncontained_in_order_Nil [uncontained_intros]: "uncontained env (in_order [])"
  by (simp add: in_order_def uncontained_resolve)

lemma uncontained_in_order_Cons [uncontained_intros]:
  "uncontained env m \<Longrightarrow> uncontained env (in_order ms) \<Longrightarrow> uncontained env (in_order (m # ms))"
  by (simp add: in_order_def uncontained_await)

lemma uncontained_if_present [uncontained_intros]:
  "(\<And>d. uncontained env (h d)) \<Longrightarrow> uncontained env (if_present x h)"
  by (cases x) (simp_all add: if_present_def uncontained_resolve)

lemma uncontained_print_event [uncontained_intros]: "uncontained env (print_event l x)"
  by (cases x) (simp_all add: print_event_def uncontained_resolve uncontained_console_log)

lemma uncontained_saveCreds [uncontained_intros]: "uncontained env (saveCreds env)"
  unfolding saveCreds_def
  by (rule uncontained_await, rule uncontained_request, rule uncontained_silent) simp

lemma uncontained_on_contact [uncontained_intros]: "uncontained env (on_contact env c)"
  by (cases "imgUrl c") (simp_all add: on_contact_def uncontained_intros)

lemma uncontained_on_message [uncontained_intros]: "uncontained env (on_message cfg env up m)"
  unfolding on_message_def sendMessageWTyping_def
  by (cases "text_of m") (simp_all add: uncontained_intros del: in_order_simps await_assoc await_unit await_unit' await_console await_delay await_request await_resolve await_emit if_true_simps)








end
